theory Spec2Isabelle
  imports Main "HOL-Library.Word"
begin

text \<open>
  A model of the styled-jsx language server: the utilities that find the CSS inside
  JavaScript and TypeScript text and blank everything else (\<open>styled-jsx-utils\<close>), and
  the request handlers built on them (\<open>styled-jsx-server-main\<close>). The theory follows
  the utilities the server imports. The repository holds an older copy of them that
  differs in three places: its scanner pattern has no \<open>css.resolve\<close> alternative, it
  compares the text of a tag with \<open>css\<close> instead of searching \<open>css\<close> in it, and its
  walk has no \<open>try\<close> around the visit of the children. The masker, \<open>getStyledJsx\<close>
  and \<open>getStyledJsxUnderCursor\<close> are the same in both. Of the older copy the scanner
  pattern, the test of the tag and the callback of the locator are modelled too, under
  names that end in \<open>_older\<close>.
\<close>

section \<open>JavaScript strings\<close>

text \<open>
  A JavaScript string is a sequence of UTF-16 code units; \<open>length\<close>, \<open>slice\<close> and a
  regular expression without the \<open>u\<close> flag all count code units. Document text is
  therefore a list of 16-bit words. \<open>str\<close> turns an ASCII literal into such a list.
\<close>

type_synonym jschar = "16 word"
type_synonym jsstring = "jschar list"

definition str :: "string \<Rightarrow> jsstring" where
  "str s = map of_char s"

text \<open>
  The exceptions the modelled code can raise: \<open>TypeError p\<close> is JavaScript's
  "Cannot read property p of undefined"; \<open>ParserError\<close> is an exception that leaves
  \<open>ts.createSourceFile\<close>, such as the \<open>RangeError\<close> of a stack overflow in the
  recursive-descent parser on deeply nested text.
\<close>

datatype error = TypeError string | ParserError

text \<open>
  The atom \<open>.\<close> of a regular expression without the \<open>s\<close> flag matches every code unit
  except the four line terminators LF, CR, U+2028 and U+2029.
\<close>

definition isLineTerminator :: "jschar \<Rightarrow> bool" where
  "isLineTerminator c \<longleftrightarrow> c = 0x0A \<or> c = 0x0D \<or> c = 0x2028 \<or> c = 0x2029"

text \<open>\<open>s.replace(/./g, " ")\<close>: every code unit that \<open>.\<close> matches becomes a space.\<close>

definition replaceDotWithSpace :: "jsstring \<Rightarrow> jsstring" where
  "replaceDotWithSpace s = map (\<lambda>c. if isLineTerminator c then c else 0x20) s"

text \<open>
  \<open>String.prototype.slice(a, b)\<close>: a negative index counts from the end, both indices
  are clamped to the string, and an end before the start gives the empty string.
\<close>

definition slice :: "jsstring \<Rightarrow> int \<Rightarrow> int \<Rightarrow> jsstring" where
  "slice s a b =
     (let len = int (length s);
          k = (if a < 0 then max (len + a) 0 else min a len);
          final = (if b < 0 then max (len + b) 0 else min b len)
      in take (nat (max (final - k) 0)) (drop (nat k) s))"

section \<open>The masker: \<open>replaceAllWithSpacesExceptCss\<close>\<close>

record StyledJsxTaggedTemplate =
  start :: int
  end' :: int

record TextDocument =
  uri :: string
  languageId :: string
  version :: int
  getText :: jsstring

record 'ss StyledJsx =
  cssDocument :: TextDocument
  stylesheet :: 'ss

text \<open>
  \<open>expressionPattern = /(\${.*})|(&&|\|\|)/g\<close>.

  \<open>dotStarBrace s\<close> is the number of code units that \<open>.*}\<close> consumes at the start of
  \<open>s\<close>: the greedy \<open>.*\<close> first takes the next code unit when it is not a line
  terminator, and only when the rest cannot be matched that way does the pattern try
  to end with \<open>}\<close> here.
\<close>

fun dotStarBrace :: "jsstring \<Rightarrow> nat option" where
  "dotStarBrace [] = None"
| "dotStarBrace (c # cs) =
     (if isLineTerminator c then None
      else (case dotStarBrace cs of
              Some n \<Rightarrow> Some (Suc n)
            | None \<Rightarrow> if c = 0x7D then Some 1 else None))"

text \<open>
  One match attempt of \<open>expressionPattern\<close> at the start of \<open>s\<close>: the length of the
  match and capture group 1. The first alternative is tried first; when only the
  second alternative matches, group 1 did not take part and is \<open>undefined\<close> (\<open>None\<close>).
\<close>

definition execExpressionPattern :: "jsstring \<Rightarrow> (nat \<times> jsstring option) option" where
  "execExpressionPattern s =
     (case (case s of
              c1 # c2 # rest \<Rightarrow> if c1 = 0x24 \<and> c2 = 0x7B then dotStarBrace rest else None
            | _ \<Rightarrow> None) of
        Some n \<Rightarrow> Some (n + 2, Some (take (n + 2) s))
      | None \<Rightarrow>
          if take 2 s = [0x26, 0x26] \<or> take 2 s = [0x7C, 0x7C] then Some (2, None) else None)"

text \<open>
  \<open>s.replace(expressionPattern, (_str, p1) => p1.replace(/./g, " "))\<close>: the matches are
  found from left to right, each search starting where the last match ended; the
  callback reads \<open>p1.replace\<close>, which throws when \<open>p1\<close> is \<open>undefined\<close>.
\<close>

function replaceExpressionPattern :: "jsstring \<Rightarrow> error + jsstring" where
  "replaceExpressionPattern [] = Inr []"
| "replaceExpressionPattern (c # cs) =
     (case execExpressionPattern (c # cs) of
        None \<Rightarrow>
          (case replaceExpressionPattern cs of
             Inl e \<Rightarrow> Inl e
           | Inr r \<Rightarrow> Inr (c # r))
      | Some (n, p1) \<Rightarrow>
          (case p1 of
             None \<Rightarrow> Inl (TypeError ''replace'')
           | Some g \<Rightarrow>
               (case replaceExpressionPattern (drop n (c # cs)) of
                  Inl e \<Rightarrow> Inl e
                | Inr r \<Rightarrow> Inr (replaceDotWithSpace g @ r))))"
  by pat_completeness auto
termination
proof (relation "measure length")
  show "wf (measure (length :: jsstring \<Rightarrow> nat))"
    by simp
next
  fix c :: jschar and cs :: jsstring
  show "(cs, c # cs) \<in> measure length"
    by simp
next
  fix c :: jschar and cs :: jsstring and x2 :: "nat \<times> jsstring option"
    and n :: nat and p1 :: "jsstring option" and g :: jsstring
  assume m: "execExpressionPattern (c # cs) = Some x2" and x: "(n, p1) = x2"
  have "0 < n"
    using m x by (auto simp: execExpressionPattern_def split: list.splits option.splits if_splits)
  then show "(drop n (c # cs), c # cs) \<in> measure length"
    by simp
qed

text \<open>
  The \<open>for\<close> loop of \<open>replaceAllWithSpacesExceptCss\<close>, run on the templates from index
  \<open>i\<close> on: the slice of the template with its expressions blanked, then, when another
  template follows, the blanked text between the two.
\<close>

fun maskTemplates :: "jsstring \<Rightarrow> StyledJsxTaggedTemplate list \<Rightarrow> error + jsstring" where
  "maskTemplates text [] = Inr []"
| "maskTemplates text (t # ts) =
     (case replaceExpressionPattern (slice text (start t) (end' t)) of
        Inl e \<Rightarrow> Inl e
      | Inr css \<Rightarrow>
          (let between = (case ts of
                            [] \<Rightarrow> []
                          | t' # _ \<Rightarrow> replaceDotWithSpace (slice text (end' t) (start t')))
           in case maskTemplates text ts of
                Inl e \<Rightarrow> Inl e
              | Inr r \<Rightarrow> Inr (css @ between @ r)))"

text \<open>
  The text of the synthetic document. Reading \<open>styledJsxTaggedTemplates[0].start\<close> of
  an empty list throws.
\<close>

definition maskedText :: "jsstring \<Rightarrow> StyledJsxTaggedTemplate list \<Rightarrow> error + jsstring" where
  "maskedText text templates =
     (case templates of
        [] \<Rightarrow> Inl (TypeError ''start'')
      | t0 # _ \<Rightarrow>
          (case maskTemplates text templates of
             Inl e \<Rightarrow> Inl e
           | Inr body \<Rightarrow>
               Inr (replaceDotWithSpace (slice text 0 (start t0)) @ body @
                    replaceDotWithSpace
                      (slice text (end' (last templates)) (int (length text))))))"

text \<open>
  \<open>stylesheets.get\<close> belongs to the language-model cache, a module of its own; it is a
  parameter.
\<close>

definition replaceAllWithSpacesExceptCss ::
  "TextDocument \<Rightarrow> StyledJsxTaggedTemplate list \<Rightarrow> (TextDocument \<Rightarrow> 'ss) \<Rightarrow> error + 'ss StyledJsx" where
  "replaceAllWithSpacesExceptCss textDocument styledJsxTaggedTemplates stylesheets =
     (case maskedText (getText textDocument) styledJsxTaggedTemplates of
        Inl e \<Rightarrow> Inl e
      | Inr result \<Rightarrow>
          (let cssDocument = \<lparr>uri = uri textDocument, languageId = ''css'',
                               version = version textDocument, getText = result\<rparr>
           in Inr \<lparr>cssDocument = cssDocument, stylesheet = stylesheets cssDocument\<rparr>))"

section \<open>The candidate scanner: \<open>getApproximateStyledJsxOffsets\<close>\<close>

text \<open>
  The fragment of regular expressions that \<open>styledJsxPattern\<close> is written in: literal
  text, the lazy \<open>\s*?\<close>, the greedy optional group \<open>(r)?\<close>, sequence and alternation.
  The capture groups of the pattern are never read, so groups only group.
\<close>

datatype regex =
    Lit jsstring
  | WsLazy
  | Opt regex
  | Seq regex regex
  | Alt regex regex

text \<open>The class \<open>\s\<close>: white space and line terminators.\<close>

definition isWhiteSpace :: "jschar \<Rightarrow> bool" where
  "isWhiteSpace c \<longleftrightarrow>
     c = 0x09 \<or> c = 0x0A \<or> c = 0x0B \<or> c = 0x0C \<or> c = 0x0D \<or> c = 0x20 \<or> c = 0xA0 \<or>
     c = 0x1680 \<or> (0x2000 \<le> c \<and> c \<le> 0x200A) \<or> c = 0x2028 \<or> c = 0x2029 \<or>
     c = 0x202F \<or> c = 0x205F \<or> c = 0x3000 \<or> c = 0xFEFF"

text \<open>
  A backtracking matcher: \<open>matchEnds r s\<close> lists, in the order in which backtracking
  tries them, the texts left over after a match of \<open>r\<close> at the start of \<open>s\<close>. The lazy
  \<open>\s*?\<close> tries the shortest run first, the greedy \<open>(r)?\<close> tries \<open>r\<close> first.
\<close>

fun lazyWhiteSpace :: "jsstring \<Rightarrow> jsstring list" where
  "lazyWhiteSpace [] = [[]]"
| "lazyWhiteSpace (c # cs) = (c # cs) # (if isWhiteSpace c then lazyWhiteSpace cs else [])"

fun matchEnds :: "regex \<Rightarrow> jsstring \<Rightarrow> jsstring list" where
  "matchEnds (Lit l) s = (if take (length l) s = l then [drop (length l) s] else [])"
| "matchEnds WsLazy s = lazyWhiteSpace s"
| "matchEnds (Opt r) s = matchEnds r s @ [s]"
| "matchEnds (Seq a b) s = concat (map (matchEnds b) (matchEnds a s))"
| "matchEnds (Alt a b) s = matchEnds a s @ matchEnds b s"

text \<open>The least number of code units a match of the expression consumes.\<close>

fun minLength :: "regex \<Rightarrow> nat" where
  "minLength (Lit l) = length l"
| "minLength WsLazy = 0"
| "minLength (Opt r) = 0"
| "minLength (Seq a b) = minLength a + minLength b"
| "minLength (Alt a b) = min (minLength a) (minLength b)"

text \<open>
  The search of \<open>RegExp.prototype.exec\<close>: the leftmost position of \<open>s\<close> where the
  expression matches; the result is the number of code units left after that match.
\<close>

fun search :: "regex \<Rightarrow> jsstring \<Rightarrow> nat option" where
  "search r [] = (case matchEnds r [] of [] \<Rightarrow> None | rest # _ \<Rightarrow> Some (length rest))"
| "search r (c # cs) =
     (case matchEnds r (c # cs) of [] \<Rightarrow> search r cs | rest # _ \<Rightarrow> Some (length rest))"

text \<open>
  \<open>exec\<close> of a global expression: the search starts at \<open>lastIndex\<close>; a match returns its
  end, the new \<open>lastIndex\<close>; a failure (\<open>null\<close>) resets \<open>lastIndex\<close> to 0.
\<close>

definition exec :: "regex \<Rightarrow> jsstring \<Rightarrow> nat \<Rightarrow> nat option" where
  "exec r doc lastIndex =
     (if length doc < lastIndex then None
      else (case search r (drop lastIndex doc) of
              None \<Rightarrow> None
            | Some k \<Rightarrow> Some (length doc - k)))"

definition seqs :: "regex list \<Rightarrow> regex" where
  "seqs rs = foldr Seq rs (Lit [])"

text \<open>
  \<open>/((<\s*?style\s*?(global)?\s*?jsx\s*?(global)?\s*?>)|(\s*?css\s*?`)|(\s*?css\.global\s*?`)|(\s*?css\.resolve\s*?`))/g\<close>
\<close>

definition styledJsxPattern :: regex where
  "styledJsxPattern =
     Alt (seqs [Lit (str ''<''), WsLazy, Lit (str ''style''), WsLazy, Opt (Lit (str ''global'')),
                WsLazy, Lit (str ''jsx''), WsLazy, Opt (Lit (str ''global'')), WsLazy,
                Lit (str ''>'')])
    (Alt (seqs [WsLazy, Lit (str ''css''), WsLazy, Lit (str ''`'')])
    (Alt (seqs [WsLazy, Lit (str ''css.global''), WsLazy, Lit (str ''`'')])
         (seqs [WsLazy, Lit (str ''css.resolve''), WsLazy, Lit (str ''`'')])))"


text \<open>
  The loop \<open>while (styledJsxPattern.exec(doc)) results.push(styledJsxPattern.lastIndex)\<close>,
  with the expression's \<open>lastIndex\<close> as the second argument. The loop ends only when
  \<open>exec\<close> fails, which leaves \<open>lastIndex\<close> at 0 for the next call.
\<close>

function scanOffsets :: "jsstring \<Rightarrow> nat \<Rightarrow> int list" where
  "scanOffsets doc lastIndex =
     (case exec styledJsxPattern doc lastIndex of
        None \<Rightarrow> []
      | Some e \<Rightarrow> int e # scanOffsets doc e)"
  by pat_completeness auto
termination
proof -
  have lazy: "rest \<in> set (lazyWhiteSpace s) \<Longrightarrow> length rest \<le> length s" for rest s
    by (induction s) (auto split: if_splits)
  have ends: "rest \<in> set (matchEnds r s) \<Longrightarrow> length rest + minLength r \<le> length s"
    for r s rest
  proof (induction r arbitrary: s rest)
    case (Lit l)
    then have "take (length l) s = l" and "rest = drop (length l) s"
      by (auto split: if_splits)
    then have "length (take (length l) s) = length l"
      by simp
    then have "length l \<le> length s"
      by simp
    with \<open>rest = drop (length l) s\<close> show ?case by simp
  next
    case WsLazy
    then show ?case using lazy by simp
  next
    case (Opt r)
    then show ?case by fastforce
  next
    case (Seq a b)
    then obtain mid where "mid \<in> set (matchEnds a s)" and "rest \<in> set (matchEnds b mid)"
      by auto
    then have "length mid + minLength a \<le> length s" and "length rest + minLength b \<le> length mid"
      using Seq.IH by blast+
    then show ?case by simp
  next
    case (Alt a b)
    then show ?case by fastforce
  qed
  have found: "search r s = Some k \<Longrightarrow> k + minLength r \<le> length s" for r s k
  proof (induction s)
    case Nil
    then show ?case
      using ends [of _ r "[]"] by (auto split: list.splits)
  next
    case (Cons c cs)
    show ?case
    proof (cases "matchEnds r (c # cs)")
      case Nil
      with Cons show ?thesis by simp
    next
      case (Cons rest rests)
      with Cons.prems have "k = length rest"
        by simp
      with Cons show ?thesis
        using ends [of rest r "c # cs"] by simp
    qed
  qed
  have "0 < minLength styledJsxPattern"
    by (simp add: styledJsxPattern_def seqs_def str_def)
  then have step: "exec styledJsxPattern doc i = Some e \<Longrightarrow> i < e \<and> e \<le> length doc" for doc i e
    using found [of styledJsxPattern "drop i doc"]
    by (auto simp: exec_def split: if_splits option.splits)
  show ?thesis
    by (relation "measure (\<lambda>(doc, i). Suc (length doc) - i)") (auto dest: step)
qed

definition getApproximateStyledJsxOffsets :: "TextDocument \<Rightarrow> int list" where
  "getApproximateStyledJsxOffsets document = scanOffsets (getText document) 0"

section \<open>The syntax tree of the TypeScript compiler\<close>

text \<open>
  The parser is the TypeScript compiler library; the utilities read its trees
  through \<open>kind\<close>, \<open>parent\<close>, \<open>getStart\<close>, \<open>getEnd\<close>, \<open>getText\<close>, \<open>forEachChild\<close> and a
  few typed fields. A tree is a node with the list of the children that
  \<open>forEachChild\<close> visits; the parent of a node is the node it was reached from, so a
  node is always handled together with the list of its ancestors, nearest first.
  Syntax kinds that the code does not tell apart are \<open>OtherToken\<close> and \<open>OtherNode\<close>.
\<close>

datatype SyntaxKind =
    EndOfFileToken
  | SingleLineCommentTrivia
  | MultiLineCommentTrivia
  | NoSubstitutionTemplateLiteral
  | TemplateHead
  | TemplateMiddle
  | TemplateTail
  | Identifier
  | OtherToken
  | TemplateExpression
  | TemplateSpan
  | TaggedTemplateExpression
  | JsxElement
  | JsxOpeningElement
  | JsxClosingElement
  | JsxAttributes
  | JsxAttribute
  | JsxSpreadAttribute
  | JsxExpression
  | JSDoc
  | SourceFile
  | OtherNode

datatype node =
  Node (kind: SyntaxKind) (getStart: int) (getEnd: int) (nodeGetText: jsstring)
       (children: "node list")

text \<open>\<open>ts.isToken\<close>: the kind lies between \<open>FirstToken\<close> and \<open>LastToken\<close>.\<close>

fun isToken :: "SyntaxKind \<Rightarrow> bool" where
  "isToken EndOfFileToken = True"
| "isToken SingleLineCommentTrivia = True"
| "isToken MultiLineCommentTrivia = True"
| "isToken NoSubstitutionTemplateLiteral = True"
| "isToken TemplateHead = True"
| "isToken TemplateMiddle = True"
| "isToken TemplateTail = True"
| "isToken Identifier = True"
| "isToken OtherToken = True"
| "isToken _ = False"

definition isTemplateHead :: "node \<Rightarrow> bool" where
  "isTemplateHead n \<longleftrightarrow> kind n = TemplateHead"

definition isTemplateLiteral :: "node \<Rightarrow> bool" where
  "isTemplateLiteral n \<longleftrightarrow> kind n = TemplateExpression \<or> kind n = NoSubstitutionTemplateLiteral"

text \<open>
  The typed fields, read off the children: \<open>tag\<close> of a tagged template,
  \<open>openingElement\<close> of a JSX element and \<open>tagName\<close> of an opening element are the first
  child; \<open>attributes\<close> of an opening element is its \<open>JsxAttributes\<close> child, whose
  \<open>properties\<close> are its children; a \<open>JsxAttribute\<close> has its \<open>name\<close> as first child and a
  spread attribute has none. \<open>None\<close> is \<open>undefined\<close>.
\<close>

definition firstChild :: "node \<Rightarrow> node option" where
  "firstChild n = (case children n of [] \<Rightarrow> None | c # _ \<Rightarrow> Some c)"

definition tag :: "node \<Rightarrow> node option" where
  "tag n = firstChild n"

definition openingElement :: "node \<Rightarrow> node option" where
  "openingElement n = firstChild n"

definition tagName :: "node \<Rightarrow> node option" where
  "tagName n = firstChild n"

definition attributes :: "node \<Rightarrow> node option" where
  "attributes n = find (\<lambda>c. kind c = JsxAttributes) (children n)"

definition properties :: "node \<Rightarrow> node list" where
  "properties n = children n"

definition name :: "node \<Rightarrow> node option" where
  "name n = (if kind n = JsxAttribute then firstChild n else None)"

section \<open>The locator: \<open>findStyledJsxTaggedTemplate\<close>\<close>

text \<open>\<open>String.prototype.includes\<close>.\<close>

fun stringIncludes :: "jsstring \<Rightarrow> jsstring \<Rightarrow> bool" where
  "stringIncludes [] sub = (sub = [])"
| "stringIncludes (c # cs) sub = (take (length sub) (c # cs) = sub \<or> stringIncludes cs sub)"

text \<open>
  \<open>getTemplateString\<close> returns the template node together with its own ancestors. For
  a template head it is \<open>node.parent\<close>, which is \<open>undefined\<close> for a node without parent.
\<close>

definition getTemplateString :: "node list \<Rightarrow> node \<Rightarrow> (node list \<times> node) option" where
  "getTemplateString parents node =
     (if isTemplateHead node \<or> isTemplateLiteral node then
        (if isTemplateHead node then
           (case parents of [] \<Rightarrow> None | p # ps \<Rightarrow> Some (ps, p))
         else Some (parents, node))
      else None)"

text \<open>
  The type guards of the compiler read \<open>node.kind\<close>, and \<open>getText\<close> is called on the
  field it is read from: both throw on \<open>undefined\<close>.
\<close>

definition isStyledJsxTaggedTemplate :: "node list \<Rightarrow> node \<Rightarrow> error + bool" where
  "isStyledJsxTaggedTemplate parents templateNode =
     (case parents of
        [] \<Rightarrow> Inl (TypeError ''kind'')
      | parent # _ \<Rightarrow>
          if kind parent = TaggedTemplateExpression then
            (case tag parent of
               None \<Rightarrow> Inl (TypeError ''getText'')
             | Some t \<Rightarrow> if stringIncludes (nodeGetText t) (str ''css'') then Inr True else Inr False)
          else Inr False)"

fun hasJsxProperty :: "node list \<Rightarrow> bool" where
  "hasJsxProperty [] = False"
| "hasJsxProperty (prop # props) =
     (case name prop of
        None \<Rightarrow> hasJsxProperty props
      | Some n \<Rightarrow> if nodeGetText n = str ''jsx'' then True else hasJsxProperty props)"

definition isStyledJsxTemplate :: "node list \<Rightarrow> node \<Rightarrow> error + bool" where
  "isStyledJsxTemplate parents node =
     (case parents of
        [] \<Rightarrow> Inl (TypeError ''kind'')
      | parent # up \<Rightarrow>
          if kind parent \<noteq> JsxExpression then Inr False
          else (case up of
                  [] \<Rightarrow> Inl (TypeError ''kind'')
                | grandparent # _ \<Rightarrow>
                    if kind grandparent \<noteq> JsxElement then Inr False
                    else (case openingElement grandparent of
                            None \<Rightarrow> Inl (TypeError ''tagName'')
                          | Some opener \<Rightarrow>
                              (case tagName opener of
                                 None \<Rightarrow> Inl (TypeError ''getText'')
                               | Some tn \<Rightarrow>
                                   if nodeGetText tn \<noteq> str ''style'' then Inr False
                                   else (case attributes opener of
                                           None \<Rightarrow> Inl (TypeError ''properties'')
                                         | Some attrs \<Rightarrow>
                                             Inr (hasJsxProperty (properties attrs)))))))"

text \<open>
  The callback that \<open>findStyledJsxTaggedTemplate\<close> hands to \<open>walk\<close>; the array
  \<open>templates\<close> it pushes to is passed through.
\<close>

definition templateRange :: "node \<Rightarrow> StyledJsxTaggedTemplate" where
  "templateRange templateNode =
     \<lparr>start = getStart templateNode + 1, end' = getEnd templateNode - 1\<rparr>"

definition collectTemplate ::
  "node list \<Rightarrow> node \<Rightarrow> StyledJsxTaggedTemplate list \<Rightarrow> error + StyledJsxTaggedTemplate list" where
  "collectTemplate parents node templates =
     (case getTemplateString parents node of
        None \<Rightarrow> Inr templates
      | Some (ps, templateNode) \<Rightarrow>
          (case isStyledJsxTaggedTemplate ps templateNode of
             Inl e \<Rightarrow> Inl e
           | Inr True \<Rightarrow> Inr (templates @ [templateRange templateNode])
           | Inr False \<Rightarrow>
               (case isStyledJsxTemplate ps templateNode of
                  Inl e \<Rightarrow> Inl e
                | Inr b \<Rightarrow>
                    if b then Inr (templates @ [templateRange templateNode])
                    else Inr templates)))"



text \<open>
  \<open>walk\<close> threads the state of the callback and the console; its second result is the
  exception that leaves it, if any. An exception thrown while the children of a node
  are visited ends that visit, is caught by the \<open>try\<close> around it and logged.
\<close>

fun walk ::
    "node list \<Rightarrow> node \<Rightarrow> (node list \<Rightarrow> node \<Rightarrow> 's \<Rightarrow> error + 's) \<Rightarrow> 's \<times> error list \<Rightarrow>
     ('s \<times> error list) \<times> error option"
  and forEachChild ::
    "node list \<Rightarrow> node list \<Rightarrow> (node list \<Rightarrow> node \<Rightarrow> 's \<Rightarrow> error + 's) \<Rightarrow> 's \<times> error list \<Rightarrow>
     ('s \<times> error list) \<times> error option" where
  "walk parents (Node k s e t cs) callback (st, console) =
     (if k = JSDoc \<or> k = MultiLineCommentTrivia \<or> k = SingleLineCommentTrivia then
        ((st, console), None)
      else if isToken k \<and> k \<noteq> EndOfFileToken then
        (case callback parents (Node k s e t cs) st of
           Inl err \<Rightarrow> ((st, console), Some err)
         | Inr st' \<Rightarrow> ((st', console), None))
      else
        (case forEachChild (Node k s e t cs # parents) cs callback (st, console) of
           ((st', console'), Some err) \<Rightarrow> ((st', console' @ [err]), None)
         | (res, None) \<Rightarrow> (res, None)))"
| "forEachChild parents [] callback sc = (sc, None)"
| "forEachChild parents (c # cs) callback sc =
     (case walk parents c callback sc of
        (sc', Some err) \<Rightarrow> (sc', Some err)
      | (sc', None) \<Rightarrow> forEachChild parents cs callback sc')"

datatype ScriptKind = Unknown | JS | JSX | TS | TSX

definition getScriptKind :: "TextDocument \<Rightarrow> ScriptKind" where
  "getScriptKind document =
     (if languageId document = ''typescriptreact'' then TSX
      else if languageId document = ''typescript'' then TS
      else if languageId document = ''javascriptreact'' then JSX
      else if languageId document = ''javascript'' then JS
      else Unknown)"

text \<open>
  \<open>ts.createSourceFile\<close> is the library's parser and a parameter here, as a function
  of the text and the script kind; \<open>None\<close> stands for a call that throws. The call is
  outside every \<open>try\<close>, so its exception leaves \<open>findStyledJsxTaggedTemplate\<close>. The
  console output of the walk is dropped from the result, as the caller cannot see
  it; \<open>walkSource\<close> keeps it.
\<close>

type_synonym parser = "jsstring \<Rightarrow> ScriptKind \<Rightarrow> node option"

definition walkSource ::
  "parser \<Rightarrow> TextDocument \<Rightarrow> (StyledJsxTaggedTemplate list \<times> error list) \<times> error option" where
  "walkSource createSourceFile textDocument =
     (case createSourceFile (getText textDocument) (getScriptKind textDocument) of
        None \<Rightarrow> (([], []), Some ParserError)
      | Some source \<Rightarrow> walk [] source collectTemplate ([], []))"

definition findStyledJsxTaggedTemplate ::
  "parser \<Rightarrow> TextDocument \<Rightarrow> int list \<Rightarrow> error + StyledJsxTaggedTemplate list" where
  "findStyledJsxTaggedTemplate createSourceFile textDocument cursorOffsets =
     (case walkSource createSourceFile textDocument of
        (_, Some err) \<Rightarrow> Inl err
      | ((templates, _), None) \<Rightarrow> Inr templates)"

section \<open>Extraction: \<open>getStyledJsx\<close> and \<open>getStyledJsxUnderCursor\<close>\<close>

definition getStyledJsx ::
  "parser \<Rightarrow> TextDocument \<Rightarrow> (TextDocument \<Rightarrow> 'ss) \<Rightarrow> error + 'ss StyledJsx option" where
  "getStyledJsx createSourceFile document stylesheets =
     (let styledJsxOffsets = getApproximateStyledJsxOffsets document
      in if 0 < length styledJsxOffsets then
           (case findStyledJsxTaggedTemplate createSourceFile document styledJsxOffsets of
              Inl e \<Rightarrow> Inl e
            | Inr styledJsxTaggedTemplates \<Rightarrow>
                if 0 < length styledJsxTaggedTemplates then
                  (case replaceAllWithSpacesExceptCss document styledJsxTaggedTemplates stylesheets of
                     Inl e \<Rightarrow> Inl e
                   | Inr r \<Rightarrow> Inr (Some r))
                else Inr None)
         else Inr None)"

text \<open>
  \<open>styledJsxTaggedTemplates[0]\<close> is read only after the length test, so the first
  element exists where it is read.
\<close>

definition getStyledJsxUnderCursor ::
  "parser \<Rightarrow> TextDocument \<Rightarrow> (TextDocument \<Rightarrow> 'ss) \<Rightarrow> int \<Rightarrow> error + 'ss StyledJsx option" where
  "getStyledJsxUnderCursor createSourceFile document stylesheets cursorOffset =
     (case findStyledJsxTaggedTemplate createSourceFile document [cursorOffset] of
        Inl e \<Rightarrow> Inl e
      | Inr styledJsxTaggedTemplates \<Rightarrow>
          (case styledJsxTaggedTemplates of
             [] \<Rightarrow> Inr None
           | t0 # _ \<Rightarrow>
               if start t0 < cursorOffset \<and> end' t0 > cursorOffset then
                 (case replaceAllWithSpacesExceptCss document styledJsxTaggedTemplates stylesheets of
                    Inl e \<Rightarrow> Inl e
                  | Inr r \<Rightarrow> Inr (Some r))
               else Inr None))"

section \<open>The server: capabilities and request handlers\<close>

datatype TextDocumentSyncKind = SyncNone | Full | Incremental

record CompletionOptions =
  resolveProvider :: bool

record ServerCapabilities =
  textDocumentSync :: TextDocumentSyncKind
  completionProvider :: "CompletionOptions option"
  hoverProvider :: bool
  documentSymbolProvider :: bool
  referencesProvider :: bool
  definitionProvider :: bool
  documentHighlightProvider :: bool
  codeActionProvider :: bool
  renameProvider :: bool
  colorProvider :: bool

text \<open>
  The handler of \<open>initialize\<close>; of the client's capabilities only \<open>snippetSupport\<close>
  reaches the answer.
\<close>

definition onInitialize :: "bool \<Rightarrow> ServerCapabilities" where
  "onInitialize snippetSupport =
     \<lparr>textDocumentSync = Full,
      completionProvider = (if snippetSupport then Some \<lparr>resolveProvider = False\<rparr> else None),
      hoverProvider = True,
      documentSymbolProvider = True,
      referencesProvider = True,
      definitionProvider = True,
      documentHighlightProvider = True,
      codeActionProvider = True,
      renameProvider = False,
      colorProvider = True\<rparr>"

text \<open>
  What a handler returns: \<open>undefined\<close>, \<open>null\<close>, the empty array, or the value that an
  operation of the CSS language service returned. The language service, the document
  manager (\<open>documents.get\<close>) and \<open>document.offsetAt\<close> are libraries and are parameters
  of the handlers.
\<close>

datatype 'r reply = Undefined | Null | EmptyArray | Result 'r

type_synonym Position = "nat \<times> nat"
type_synonym Range = "Position \<times> Position"

definition onCompletion ::
  "parser \<Rightarrow> (string \<Rightarrow> TextDocument option) \<Rightarrow> (TextDocument \<Rightarrow> 'ss) \<Rightarrow>
   (TextDocument \<Rightarrow> Position \<Rightarrow> int) \<Rightarrow> (TextDocument \<Rightarrow> Position \<Rightarrow> 'ss \<Rightarrow> 'r) \<Rightarrow>
   string \<Rightarrow> Position \<Rightarrow> error + 'r reply" where
  "onCompletion createSourceFile documents stylesheets offsetAt doComplete textDocumentUri position =
     (case documents textDocumentUri of
        None \<Rightarrow> Inr Undefined
      | Some document \<Rightarrow>
          (let cursorOffset = offsetAt document position
           in case getStyledJsxUnderCursor createSourceFile document stylesheets cursorOffset of
                Inl e \<Rightarrow> Inl e
              | Inr (Some styledJsx) \<Rightarrow>
                  Inr (Result (doComplete (cssDocument styledJsx) position (stylesheet styledJsx)))
              | Inr None \<Rightarrow> Inr Null))"

definition onHover ::
  "parser \<Rightarrow> (string \<Rightarrow> TextDocument option) \<Rightarrow> (TextDocument \<Rightarrow> 'ss) \<Rightarrow>
   (TextDocument \<Rightarrow> Position \<Rightarrow> 'ss \<Rightarrow> 'r) \<Rightarrow> string \<Rightarrow> Position \<Rightarrow> error + 'r reply" where
  "onHover createSourceFile documents stylesheets doHover textDocumentUri position =
     (case documents textDocumentUri of
        None \<Rightarrow> Inr Null
      | Some document \<Rightarrow>
          (case getStyledJsx createSourceFile document stylesheets of
             Inl e \<Rightarrow> Inl e
           | Inr (Some styledJsx) \<Rightarrow>
               Inr (Result (doHover (cssDocument styledJsx) position (stylesheet styledJsx)))
           | Inr None \<Rightarrow> Inr Null))"

definition onDocumentSymbol ::
  "parser \<Rightarrow> (string \<Rightarrow> TextDocument option) \<Rightarrow> (TextDocument \<Rightarrow> 'ss) \<Rightarrow>
   (TextDocument \<Rightarrow> 'ss \<Rightarrow> 'r) \<Rightarrow> string \<Rightarrow> error + 'r reply" where
  "onDocumentSymbol createSourceFile documents stylesheets findDocumentSymbols textDocumentUri =
     (case documents textDocumentUri of
        None \<Rightarrow> Inr Null
      | Some document \<Rightarrow>
          (case getStyledJsx createSourceFile document stylesheets of
             Inl e \<Rightarrow> Inl e
           | Inr (Some styledJsx) \<Rightarrow>
               Inr (Result (findDocumentSymbols (cssDocument styledJsx) (stylesheet styledJsx)))
           | Inr None \<Rightarrow> Inr Null))"

definition onDefinition ::
  "parser \<Rightarrow> (string \<Rightarrow> TextDocument option) \<Rightarrow> (TextDocument \<Rightarrow> 'ss) \<Rightarrow>
   (TextDocument \<Rightarrow> Position \<Rightarrow> 'ss \<Rightarrow> 'r) \<Rightarrow> string \<Rightarrow> Position \<Rightarrow> error + 'r reply" where
  "onDefinition createSourceFile documents stylesheets findDefinition textDocumentUri position =
     (case documents textDocumentUri of
        None \<Rightarrow> Inr Null
      | Some document \<Rightarrow>
          (case getStyledJsx createSourceFile document stylesheets of
             Inl e \<Rightarrow> Inl e
           | Inr (Some styledJsx) \<Rightarrow>
               Inr (Result (findDefinition (cssDocument styledJsx) position (stylesheet styledJsx)))
           | Inr None \<Rightarrow> Inr Null))"

definition onDocumentHighlight ::
  "parser \<Rightarrow> (string \<Rightarrow> TextDocument option) \<Rightarrow> (TextDocument \<Rightarrow> 'ss) \<Rightarrow>
   (TextDocument \<Rightarrow> Position \<Rightarrow> 'ss \<Rightarrow> 'r) \<Rightarrow> string \<Rightarrow> Position \<Rightarrow> error + 'r reply" where
  "onDocumentHighlight createSourceFile documents stylesheets findDocumentHighlights
       textDocumentUri position =
     (case documents textDocumentUri of
        None \<Rightarrow> Inr Null
      | Some document \<Rightarrow>
          (case getStyledJsx createSourceFile document stylesheets of
             Inl e \<Rightarrow> Inl e
           | Inr (Some styledJsx) \<Rightarrow>
               Inr (Result (findDocumentHighlights (cssDocument styledJsx) position
                              (stylesheet styledJsx)))
           | Inr None \<Rightarrow> Inr Null))"

definition onReferences ::
  "parser \<Rightarrow> (string \<Rightarrow> TextDocument option) \<Rightarrow> (TextDocument \<Rightarrow> 'ss) \<Rightarrow>
   (TextDocument \<Rightarrow> Position \<Rightarrow> 'ss \<Rightarrow> 'r) \<Rightarrow> string \<Rightarrow> Position \<Rightarrow> error + 'r reply" where
  "onReferences createSourceFile documents stylesheets findReferences textDocumentUri position =
     (case documents textDocumentUri of
        None \<Rightarrow> Inr Null
      | Some document \<Rightarrow>
          (case getStyledJsx createSourceFile document stylesheets of
             Inl e \<Rightarrow> Inl e
           | Inr (Some styledJsx) \<Rightarrow>
               Inr (Result (findReferences (cssDocument styledJsx) position (stylesheet styledJsx)))
           | Inr None \<Rightarrow> Inr Null))"

definition onCodeAction ::
  "parser \<Rightarrow> (string \<Rightarrow> TextDocument option) \<Rightarrow> (TextDocument \<Rightarrow> 'ss) \<Rightarrow>
   (TextDocument \<Rightarrow> Range \<Rightarrow> 'ctx \<Rightarrow> 'ss \<Rightarrow> 'r) \<Rightarrow> string \<Rightarrow> Range \<Rightarrow> 'ctx \<Rightarrow> error + 'r reply" where
  "onCodeAction createSourceFile documents stylesheets doCodeActions textDocumentUri rng ctxt =
     (case documents textDocumentUri of
        None \<Rightarrow> Inr Null
      | Some document \<Rightarrow>
          (case getStyledJsx createSourceFile document stylesheets of
             Inl e \<Rightarrow> Inl e
           | Inr (Some styledJsx) \<Rightarrow>
               Inr (Result (doCodeActions (cssDocument styledJsx) rng ctxt (stylesheet styledJsx)))
           | Inr None \<Rightarrow> Inr Null))"

definition onDocumentColor ::
  "parser \<Rightarrow> (string \<Rightarrow> TextDocument option) \<Rightarrow> (TextDocument \<Rightarrow> 'ss) \<Rightarrow>
   (TextDocument \<Rightarrow> 'ss \<Rightarrow> 'r) \<Rightarrow> string \<Rightarrow> error + 'r reply" where
  "onDocumentColor createSourceFile documents stylesheets findDocumentColors textDocumentUri =
     (case documents textDocumentUri of
        None \<Rightarrow> Inr EmptyArray
      | Some document \<Rightarrow>
          (case getStyledJsx createSourceFile document stylesheets of
             Inl e \<Rightarrow> Inl e
           | Inr (Some styledJsx) \<Rightarrow>
               Inr (Result (findDocumentColors (cssDocument styledJsx) (stylesheet styledJsx)))
           | Inr None \<Rightarrow> Inr EmptyArray))"

definition onColorPresentation ::
  "parser \<Rightarrow> (string \<Rightarrow> TextDocument option) \<Rightarrow> (TextDocument \<Rightarrow> 'ss) \<Rightarrow>
   (TextDocument \<Rightarrow> 'ss \<Rightarrow> 'col \<Rightarrow> Range \<Rightarrow> 'r) \<Rightarrow> string \<Rightarrow> 'col \<Rightarrow> Range \<Rightarrow> error + 'r reply" where
  "onColorPresentation createSourceFile documents stylesheets getColorPresentations
       textDocumentUri color rng =
     (case documents textDocumentUri of
        None \<Rightarrow> Inr EmptyArray
      | Some document \<Rightarrow>
          (case getStyledJsx createSourceFile document stylesheets of
             Inl e \<Rightarrow> Inl e
           | Inr (Some styledJsx) \<Rightarrow>
               Inr (Result (getColorPresentations (cssDocument styledJsx) (stylesheet styledJsx)
                              color rng))
           | Inr None \<Rightarrow> Inr EmptyArray))"

definition onRenameRequest ::
  "parser \<Rightarrow> (string \<Rightarrow> TextDocument option) \<Rightarrow> (TextDocument \<Rightarrow> 'ss) \<Rightarrow>
   (TextDocument \<Rightarrow> Position \<Rightarrow> jsstring \<Rightarrow> 'ss \<Rightarrow> 'r) \<Rightarrow> string \<Rightarrow> Position \<Rightarrow> jsstring \<Rightarrow>
   error + 'r reply" where
  "onRenameRequest createSourceFile documents stylesheets doRename textDocumentUri position newName =
     (case documents textDocumentUri of
        None \<Rightarrow> Inr Null
      | Some document \<Rightarrow>
          (case getStyledJsx createSourceFile document stylesheets of
             Inl e \<Rightarrow> Inl e
           | Inr (Some styledJsx) \<Rightarrow>
               Inr (Result (doRename (cssDocument styledJsx) position newName
                              (stylesheet styledJsx)))
           | Inr None \<Rightarrow> Inr Null))"

text \<open>
  \<open>validateTextDocument\<close>, once the settings have arrived: the result is the
  notification handed to \<open>connection.sendDiagnostics\<close>, the document's URI with the
  diagnostics. \<open>clearDiagnostics\<close> sends the empty array.
\<close>

definition clearDiagnostics :: "TextDocument \<Rightarrow> string \<times> 'r reply" where
  "clearDiagnostics document = (uri document, EmptyArray)"

definition validateTextDocument ::
  "parser \<Rightarrow> (TextDocument \<Rightarrow> 'ss) \<Rightarrow> (TextDocument \<Rightarrow> 'ss \<Rightarrow> 'cfg \<Rightarrow> 'r) \<Rightarrow> TextDocument \<Rightarrow> 'cfg \<Rightarrow>
   error + string \<times> 'r reply" where
  "validateTextDocument createSourceFile stylesheets doValidation document settings =
     (case getStyledJsx createSourceFile document stylesheets of
        Inl e \<Rightarrow> Inl e
      | Inr (Some styledJsx) \<Rightarrow>
          Inr (uri document,
               Result (doValidation (cssDocument styledJsx) (stylesheet styledJsx) settings))
      | Inr None \<Rightarrow> Inr (clearDiagnostics document))"

section \<open>Template ranges in source order\<close>

text \<open>
  The ranges of templates that lie one after the other in the text: each starts at or
  after the end of the one before, none ends before it starts, the first starts at or
  after \<open>lo\<close> and the last ends at or before \<open>hi\<close>.
\<close>

fun inSourceOrder :: "int \<Rightarrow> StyledJsxTaggedTemplate list \<Rightarrow> int \<Rightarrow> bool" where
  "inSourceOrder lo [] hi \<longleftrightarrow> lo \<le> hi"
| "inSourceOrder lo (t # ts) hi \<longleftrightarrow> lo \<le> start t \<and> start t \<le> end' t \<and> inSourceOrder (end' t) ts hi"

text \<open>A position lies in one of the ranges.\<close>

fun insideRange :: "StyledJsxTaggedTemplate list \<Rightarrow> int \<Rightarrow> bool" where
  "insideRange [] p \<longleftrightarrow> False"
| "insideRange (t # ts) p \<longleftrightarrow> (start t \<le> p \<and> p < end' t) \<or> insideRange ts p"

section \<open>Example documents\<close>

text \<open>
  Documents with the trees the parser builds for them. \<open>mk\<close> builds a node whose text
  is the part of the document between its start and its end.
\<close>

definition mk :: "jsstring \<Rightarrow> SyntaxKind \<Rightarrow> int \<Rightarrow> int \<Rightarrow> node list \<Rightarrow> node" where
  "mk text k s e cs = Node k s e (slice text s e) cs"

definition exampleDocument :: "jsstring \<Rightarrow> TextDocument" where
  "exampleDocument text =
     \<lparr>uri = ''file:///example.js'', languageId = ''javascript'', version = 1, getText = text\<rparr>"

text \<open>
  A tagged template inside an interpolation of another one:
  \<^verbatim>\<open>css`a ${ css`b` } c`\<close>
\<close>

definition nestedText :: jsstring where
  "nestedText = str ''css`a ${ css`b` } c`''"

definition nestedSource :: node where
  "nestedSource =
     mk nestedText SourceFile 0 20
       [mk nestedText OtherNode 0 20
          [mk nestedText TaggedTemplateExpression 0 20
             [mk nestedText Identifier 0 3 [],
              mk nestedText TemplateExpression 3 20
                [mk nestedText TemplateHead 3 8 [],
                 mk nestedText TemplateSpan 9 20
                   [mk nestedText TaggedTemplateExpression 9 15
                      [mk nestedText Identifier 9 12 [],
                       mk nestedText NoSubstitutionTemplateLiteral 12 15 []],
                    mk nestedText TemplateTail 16 20 []]]]],
        mk nestedText EndOfFileToken 20 20 []]"

text \<open>
  An interpolation that runs over two lines and holds a logical operator:
  \<^verbatim>\<open>css`${a &&\<close> on the first line and \<^verbatim>\<open>b}`\<close> on the second.
\<close>

definition operatorText :: jsstring where
  "operatorText = str ''css`${a &&'' @ [0x0A] @ str ''b}`''"

definition operatorSource :: node where
  "operatorSource =
     mk operatorText SourceFile 0 14
       [mk operatorText OtherNode 0 14
          [mk operatorText TaggedTemplateExpression 0 14
             [mk operatorText Identifier 0 3 [],
              mk operatorText TemplateExpression 3 14
                [mk operatorText TemplateHead 3 6 [],
                 mk operatorText TemplateSpan 6 14
                   [mk operatorText OtherNode 6 12
                      [mk operatorText Identifier 6 7 [],
                       mk operatorText OtherToken 8 10 [],
                       mk operatorText Identifier 11 12 []],
                    mk operatorText TemplateTail 12 14 []]]]],
        mk operatorText EndOfFileToken 14 14 []]"

text \<open>
  A line of other code, then a template on the second line: \<^verbatim>\<open>x\<close>, a line feed,
  \<^verbatim>\<open>css`a`\<close>.
\<close>

definition newlineText :: jsstring where
  "newlineText = str ''x'' @ [0x0A] @ str ''css`a`''"

definition newlineSource :: node where
  "newlineSource =
     mk newlineText SourceFile 0 8
       [mk newlineText OtherNode 0 1 [mk newlineText Identifier 0 1 []],
        mk newlineText OtherNode 2 8
          [mk newlineText TaggedTemplateExpression 2 8
             [mk newlineText Identifier 2 5 [],
              mk newlineText NoSubstitutionTemplateLiteral 5 8 []]],
        mk newlineText EndOfFileToken 8 8 []]"

text \<open>Two templates, one after the other: \<^verbatim>\<open>css`a`;css`bc`\<close>\<close>

definition twoText :: jsstring where
  "twoText = str ''css`a`;css`bc`''"

definition twoSecondTemplate :: node where
  "twoSecondTemplate = mk twoText NoSubstitutionTemplateLiteral 10 14 []"

definition twoSecondTag :: node where
  "twoSecondTag = mk twoText Identifier 7 10 []"

definition twoSecondTagged :: node where
  "twoSecondTagged = mk twoText TaggedTemplateExpression 7 14 [twoSecondTag, twoSecondTemplate]"

definition twoSecondStatement :: node where
  "twoSecondStatement = mk twoText OtherNode 7 14 [twoSecondTagged]"

definition twoFirstTemplate :: node where
  "twoFirstTemplate = mk twoText NoSubstitutionTemplateLiteral 3 6 []"

definition twoSource :: node where
  "twoSource =
     mk twoText SourceFile 0 14
       [mk twoText OtherNode 0 7
          [mk twoText TaggedTemplateExpression 0 6
             [mk twoText Identifier 0 3 [], twoFirstTemplate]],
        twoSecondStatement,
        mk twoText EndOfFileToken 14 14 []]"



text \<open>
  A template tagged \<open>css.global\<close>: \<^verbatim>\<open>css.global`a`\<close>
\<close>

definition globalText :: jsstring where
  "globalText = str ''css.global`a`''"

definition globalTemplate :: node where
  "globalTemplate = mk globalText NoSubstitutionTemplateLiteral 10 13 []"

definition globalTagged :: node where
  "globalTagged =
     mk globalText TaggedTemplateExpression 0 13
       [mk globalText OtherNode 0 10
          [mk globalText Identifier 0 3 [], mk globalText Identifier 4 10 []],
        globalTemplate]"

definition globalStatement :: node where
  "globalStatement = mk globalText OtherNode 0 13 [globalTagged]"

definition globalSource :: node where
  "globalSource =
     mk globalText SourceFile 0 13
       [globalStatement, mk globalText EndOfFileToken 13 13 []]"

text \<open>
  A style element whose \<open>jsx\<close> attribute has a value:
  \<^verbatim>\<open><style jsx={1}>{`b{}`}</style>\<close>
\<close>

definition attributeText :: jsstring where
  "attributeText = str ''<style jsx={1}>{`b{}`}</style>''"

definition attributeTemplate :: node where
  "attributeTemplate = mk attributeText NoSubstitutionTemplateLiteral 16 21 []"

definition attributeContainer :: node where
  "attributeContainer = mk attributeText JsxExpression 15 22 [attributeTemplate]"

definition attributeElement :: node where
  "attributeElement =
     mk attributeText JsxElement 0 30
       [mk attributeText JsxOpeningElement 0 15
          [mk attributeText Identifier 1 6 [],
           mk attributeText JsxAttributes 7 14
             [mk attributeText JsxAttribute 7 14
                [mk attributeText Identifier 7 10 [],
                 mk attributeText JsxExpression 11 14
                   [mk attributeText OtherToken 12 13 []]]]],
        attributeContainer,
        mk attributeText JsxClosingElement 22 30
          [mk attributeText Identifier 24 29 []]]"

definition attributeStatement :: node where
  "attributeStatement = mk attributeText OtherNode 0 30 [attributeElement]"

definition attributeSource :: node where
  "attributeSource =
     mk attributeText SourceFile 0 30
       [attributeStatement, mk attributeText EndOfFileToken 30 30 []]"

text \<open>A document without any styled-jsx: \<^verbatim>\<open>let x = 1;\<close>\<close>

definition plainText :: jsstring where
  "plainText = str ''let x = 1;''"

definition plainSource :: node where
  "plainSource =
     mk plainText SourceFile 0 10
       [mk plainText OtherNode 0 10
          [mk plainText OtherNode 4 9
             [mk plainText Identifier 4 5 [], mk plainText OtherToken 8 9 []]],
        mk plainText EndOfFileToken 10 10 []]"

section \<open>Which templates are styled-jsx\<close>

text \<open>
  The two conditions under which a template literal counts as styled-jsx CSS, stated
  on the ancestors of the template, nearest first: (a) the parent is a tagged template
  whose tag text contains \<open>css\<close>; (b) the parent is a JSX expression container and its
  parent a JSX element whose opening tag is named \<open>style\<close> and has an attribute named
  \<open>jsx\<close>.
\<close>

definition taggedWithCss :: "node list \<Rightarrow> bool" where
  "taggedWithCss parents \<longleftrightarrow>
     (case parents of
        [] \<Rightarrow> False
      | parent # _ \<Rightarrow>
          kind parent = TaggedTemplateExpression \<and>
          (case tag parent of
             None \<Rightarrow> False
           | Some t \<Rightarrow> stringIncludes (nodeGetText t) (str ''css'')))"

definition namedJsx :: "node \<Rightarrow> bool" where
  "namedJsx prop \<longleftrightarrow> (case name prop of None \<Rightarrow> False | Some n \<Rightarrow> nodeGetText n = str ''jsx'')"

definition insideStyleJsx :: "node list \<Rightarrow> bool" where
  "insideStyleJsx parents \<longleftrightarrow>
     (case parents of
        parent # grandparent # _ \<Rightarrow>
          kind parent = JsxExpression \<and> kind grandparent = JsxElement \<and>
          (case openingElement grandparent of
             None \<Rightarrow> False
           | Some opener \<Rightarrow>
               (case tagName opener of
                  None \<Rightarrow> False
                | Some tn \<Rightarrow> nodeGetText tn = str ''style'') \<and>
               (case attributes opener of
                  None \<Rightarrow> False
                | Some attrs \<Rightarrow> list_ex namedJsx (properties attrs)))
      | _ \<Rightarrow> False)"

text \<open>
  The template literals of a tree, each with its ancestors, in source order; what is
  inside JSDoc and comments is left out.
\<close>

fun templateLiterals :: "node list \<Rightarrow> node \<Rightarrow> (node list \<times> node) list"
  and templateLiteralsOf :: "node list \<Rightarrow> node list \<Rightarrow> (node list \<times> node) list" where
  "templateLiterals parents (Node k s e t cs) =
     (if k = JSDoc \<or> k = MultiLineCommentTrivia \<or> k = SingleLineCommentTrivia then []
      else (if k = NoSubstitutionTemplateLiteral \<or> k = TemplateExpression
            then [(parents, Node k s e t cs)] else []) @
           templateLiteralsOf (Node k s e t cs # parents) cs)"
| "templateLiteralsOf parents [] = []"
| "templateLiteralsOf parents (c # cs) = templateLiterals parents c @ templateLiteralsOf parents cs"

text \<open>The ranges of the template literals for which (a) or (b) holds.\<close>

definition styledJsxRanges :: "(node list \<times> node) list \<Rightarrow> StyledJsxTaggedTemplate list" where
  "styledJsxRanges literals =
     map (\<lambda>(parents, templateNode). templateRange templateNode)
       (filter (\<lambda>(parents, templateNode). taggedWithCss parents \<or> insideStyleJsx parents) literals)"

text \<open>
  The shape of the trees that the parser builds, as far as the locator depends on it:
  a token other than the end of the file has no children; a template expression
  begins with its template head, and a template head occurs nowhere else; a tagged
  template has a tag; a JSX element has an opening element with a tag name and
  attributes.
\<close>

definition localShape :: "node \<Rightarrow> bool" where
  "localShape n \<longleftrightarrow>
     (isToken (kind n) \<and> kind n \<noteq> EndOfFileToken \<longrightarrow> children n = []) \<and>
     (if kind n = TemplateExpression then
        (case children n of
           [] \<Rightarrow> False
         | head # spans \<Rightarrow> kind head = TemplateHead \<and> list_all (\<lambda>c. kind c \<noteq> TemplateHead) spans)
      else list_all (\<lambda>c. kind c \<noteq> TemplateHead) (children n)) \<and>
     (kind n = TaggedTemplateExpression \<longrightarrow> tag n \<noteq> None) \<and>
     (kind n = JsxElement \<longrightarrow>
        (case openingElement n of
           None \<Rightarrow> False
         | Some opener \<Rightarrow> tagName opener \<noteq> None \<and> attributes opener \<noteq> None))"

fun wellShaped :: "node \<Rightarrow> bool" where
  "wellShaped (Node k s e t cs) \<longleftrightarrow> localShape (Node k s e t cs) \<and> list_all wellShaped cs"

text \<open>A node with its ancestors up to the source file, every one of them of that shape.\<close>

definition rooted :: "node list \<Rightarrow> bool" where
  "rooted path \<longleftrightarrow> path \<noteq> [] \<and> kind (last path) = SourceFile \<and> list_all localShape path"

section \<open>Evaluation\<close>

lemmas string_eval = str_def slice_def isLineTerminator_def replaceDotWithSpace_def

lemmas scan_eval =
  getApproximateStyledJsxOffsets_def exec_def styledJsxPattern_def seqs_def isWhiteSpace_def

lemmas tree_eval =
  mk_def walkSource_def findStyledJsxTaggedTemplate_def collectTemplate_def
  getTemplateString_def isTemplateHead_def isTemplateLiteral_def isStyledJsxTaggedTemplate_def
  isStyledJsxTemplate_def tag_def firstChild_def openingElement_def tagName_def attributes_def
  properties_def name_def templateRange_def getScriptKind_def

lemmas mask_eval =
  replaceAllWithSpacesExceptCss_def maskedText_def execExpressionPattern_def

lemmas example_eval =
  exampleDocument_def nestedText_def nestedSource_def operatorText_def operatorSource_def
  newlineText_def newlineSource_def twoText_def twoSource_def twoFirstTemplate_def
  twoSecondStatement_def twoSecondTagged_def twoSecondTag_def twoSecondTemplate_def
  globalText_def globalSource_def globalStatement_def globalTagged_def globalTemplate_def
  attributeText_def attributeSource_def attributeStatement_def attributeElement_def
  attributeContainer_def attributeTemplate_def plainText_def plainSource_def

lemmas shape_eval =
  localShape_def styledJsxRanges_def taggedWithCss_def insideStyleJsx_def namedJsx_def

section \<open>Properties of the masker\<close>

lemma length_replaceDotWithSpace [simp]: "length (replaceDotWithSpace s) = length s"
  by (simp add: replaceDotWithSpace_def)

lemma dotStarBrace_le: "dotStarBrace s = Some n \<Longrightarrow> 0 < n \<and> n \<le> length s"
  by (induction s arbitrary: n) (auto split: if_splits option.splits)

lemma execExpressionPattern_Some:
  "execExpressionPattern s = Some (n, Some g) \<Longrightarrow> 0 < n \<and> n \<le> length s \<and> g = take n s"
  by (auto simp: execExpressionPattern_def split: list.splits option.splits if_splits dest: dotStarBrace_le)

lemma length_replaceExpressionPattern:
  "replaceExpressionPattern s = Inr r \<Longrightarrow> length r = length s"
proof (induction s arbitrary: r rule: replaceExpressionPattern.induct)
  case 1
  then show ?case by simp
next
  case (2 c cs)
  show ?case
  proof (cases "execExpressionPattern (c # cs)")
    case None
    with "2.prems" obtain r' where "replaceExpressionPattern cs = Inr r'" and "r = c # r'"
      by (auto split: sum.splits)
    with "2.IH"(1) [OF None] show ?thesis by simp
  next
    case (Some m)
    obtain n p1 where m: "m = (n, p1)" by (cases m)
    show ?thesis
    proof (cases p1)
      case None
      with "2.prems" Some m show ?thesis by simp
    next
      case (Some g)
      with \<open>execExpressionPattern (c # cs) = Some m\<close> m
      have e: "execExpressionPattern (c # cs) = Some (n, Some g)" by simp
      from execExpressionPattern_Some [OF e]
      have n: "0 < n" "n \<le> length (c # cs)" "g = take n (c # cs)" by auto
      from "2.prems" e obtain r' where r': "replaceExpressionPattern (drop n (c # cs)) = Inr r'"
        and r: "r = replaceDotWithSpace g @ r'"
        by (auto split: sum.splits)
      have "length r' = length (drop n (c # cs))"
        using "2.IH"(2) [OF e refl refl r'] .
      with n r show ?thesis by (simp del: drop_Suc_Cons take_Suc_Cons)
    qed
  qed
qed

lemma replaceExpressionPattern_error:
  "replaceExpressionPattern s = Inl e \<Longrightarrow> e = TypeError ''replace''"
proof (induction s rule: replaceExpressionPattern.induct)
  case 1
  then show ?case by simp
next
  case (2 c cs)
  show ?case
  proof (cases "execExpressionPattern (c # cs)")
    case None
    with "2.prems" have "replaceExpressionPattern cs = Inl e"
      by (auto split: sum.splits)
    with "2.IH"(1) [OF None] show ?thesis by simp
  next
    case (Some m)
    obtain n p1 where m: "m = (n, p1)" by (cases m)
    show ?thesis
    proof (cases p1)
      case None
      with "2.prems" Some m show ?thesis by simp
    next
      case (Some g)
      with \<open>execExpressionPattern (c # cs) = Some m\<close> m
      have e: "execExpressionPattern (c # cs) = Some (n, Some g)" by simp
      from "2.prems" e have "replaceExpressionPattern (drop n (c # cs)) = Inl e"
        by (auto split: sum.splits)
      then show ?thesis
        using "2.IH"(2) [OF e refl refl] by simp
    qed
  qed
qed

lemma slice_within:
  "0 \<le> a \<Longrightarrow> a \<le> b \<Longrightarrow> b \<le> int (length s) \<Longrightarrow>
   slice s a b = take (nat b - nat a) (drop (nat a) s)"
  by (simp add: slice_def Let_def min_def max_def nat_diff_distrib)

lemma length_slice_within:
  "0 \<le> a \<Longrightarrow> a \<le> b \<Longrightarrow> b \<le> int (length s) \<Longrightarrow> length (slice s a b) = nat (b - a)"
  by (simp add: slice_within)
lemma nth_replaceDotWithSpace:
  "i < length s \<Longrightarrow>
   replaceDotWithSpace s ! i = (if isLineTerminator (s ! i) then s ! i else 0x20)"
  by (simp add: replaceDotWithSpace_def)

lemma nth_blank_slice:
  assumes "0 \<le> a" "a \<le> b" "b \<le> int (length s)" "nat a \<le> p" "p < nat b"
  shows "replaceDotWithSpace (slice s a b) ! (p - nat a) =
         (if isLineTerminator (s ! p) then s ! p else 0x20)"
proof -
  have "p - nat a < length (slice s a b)"
    using assms by (simp add: length_slice_within)
  moreover have "slice s a b ! (p - nat a) = s ! p"
    using assms by (simp add: slice_within)
  ultimately show ?thesis
    by (simp add: nth_replaceDotWithSpace)
qed

lemma inSourceOrder_le: "inSourceOrder lo ts hi \<Longrightarrow> lo \<le> hi"
  by (induction ts arbitrary: lo) force+

lemma mask_compose:
  assumes lo: "0 \<le> lo" "lo \<le> s" "s \<le> e" "e \<le> int (length text)"
    and css: "length css = nat (e - s)"
    and len: "length G' = length text - nat e"
    and pos: "\<And>p. nat e \<le> p \<Longrightarrow> p < length text \<Longrightarrow> \<not> Q p \<Longrightarrow>
               G' ! (p - nat e) = (if isLineTerminator (text ! p) then text ! p else 0x20)"
  shows "length (replaceDotWithSpace (slice text lo s) @ css @ G') = length text - nat lo"
    and "\<And>p. nat lo \<le> p \<Longrightarrow> p < length text \<Longrightarrow> \<not> (s \<le> int p \<and> int p < e) \<Longrightarrow> \<not> Q p \<Longrightarrow>
           (replaceDotWithSpace (slice text lo s) @ css @ G') ! (p - nat lo) =
           (if isLineTerminator (text ! p) then text ! p else 0x20)"
proof -
  have la: "length (replaceDotWithSpace (slice text lo s)) = nat s - nat lo"
    using lo by (simp add: length_slice_within nat_diff_distrib)
  have lc: "length css = nat e - nat s"
    using lo css by (simp add: nat_diff_distrib)
  show "length (replaceDotWithSpace (slice text lo s) @ css @ G') = length text - nat lo"
  proof -
    have "nat lo \<le> nat s" "nat s \<le> nat e" "nat e \<le> length text"
      using lo by linarith+
    then have "(nat s - nat lo) + ((nat e - nat s) + (length text - nat e)) = length text - nat lo"
      by linarith
    then show ?thesis
      using la lc len by simp
  qed
  fix p
  assume p: "nat lo \<le> p" "p < length text" "\<not> (s \<le> int p \<and> int p < e)" "\<not> Q p"
  show "(replaceDotWithSpace (slice text lo s) @ css @ G') ! (p - nat lo) =
           (if isLineTerminator (text ! p) then text ! p else 0x20)"
  proof (cases "int p < s")
    case True
    then have "p < nat s" using lo by linarith
    then have "p - nat lo < length (replaceDotWithSpace (slice text lo s))"
      using la p by linarith
    then have "(replaceDotWithSpace (slice text lo s) @ css @ G') ! (p - nat lo) =
        replaceDotWithSpace (slice text lo s) ! (p - nat lo)"
      by (simp add: nth_append)
    also have "\<dots> = (if isLineTerminator (text ! p) then text ! p else 0x20)"
      using lo p \<open>p < nat s\<close> by (intro nth_blank_slice) auto
    finally show ?thesis .
  next
    case False
    with p have pe: "nat e \<le> p" using lo by linarith
    have "nat lo \<le> nat s" "nat s \<le> nat e"
      using lo by linarith+
    then have split: "p - nat lo = length (replaceDotWithSpace (slice text lo s) @ css) + (p - nat e)"
      using pe la lc by simp
    have "(replaceDotWithSpace (slice text lo s) @ css @ G') ! (p - nat lo) =
          ((replaceDotWithSpace (slice text lo s) @ css) @ G') ! (p - nat lo)"
      by simp
    also have "\<dots> = G' ! (p - nat e)"
      unfolding split by (rule nth_append_length_plus)
    finally have "(replaceDotWithSpace (slice text lo s) @ css @ G') ! (p - nat lo) = G' ! (p - nat e)" .
    with pos [OF pe p(2) p(4)] show ?thesis by simp
  qed
qed
lemma maskTemplates_positions:
  assumes "0 \<le> lo" and "inSourceOrder lo (t # ts) (int (length text))"
    and "maskTemplates text (t # ts) = Inr body"
  shows "length (replaceDotWithSpace (slice text lo (start t)) @ body @
                 replaceDotWithSpace (slice text (end' (last (t # ts))) (int (length text))))
         = length text - nat lo \<and>
         (\<forall>p. nat lo \<le> p \<and> p < length text \<and> \<not> insideRange (t # ts) (int p) \<longrightarrow>
           (replaceDotWithSpace (slice text lo (start t)) @ body @
            replaceDotWithSpace (slice text (end' (last (t # ts))) (int (length text)))) ! (p - nat lo)
           = (if isLineTerminator (text ! p) then text ! p else 0x20))"
  using assms
proof (induction ts arbitrary: t lo body)
  case Nil
  from Nil.prems(2) have ord: "lo \<le> start t" "start t \<le> end' t" "end' t \<le> int (length text)"
    by simp_all
  from Nil.prems(3) obtain css where css: "replaceExpressionPattern (slice text (start t) (end' t)) = Inr css"
    and body: "body = css"
    by (auto split: sum.splits)
  have lcss: "length css = nat (end' t - start t)"
    using length_replaceExpressionPattern [OF css] ord Nil.prems(1) by (simp add: length_slice_within)
  define T where "T = replaceDotWithSpace (slice text (end' t) (int (length text)))"
  have e0: "0 \<le> end' t" using ord Nil.prems(1) by linarith
  have lT: "length T = length text - nat (end' t)"
    unfolding T_def using e0 ord by (simp add: length_slice_within nat_diff_distrib)
  have pT: "T ! (p - nat (end' t)) = (if isLineTerminator (text ! p) then text ! p else 0x20)"
    if "nat (end' t) \<le> p" "p < length text" "\<not> False" for p
    unfolding T_def using e0 ord that by (intro nth_blank_slice) auto
  from mask_compose [where Q = "\<lambda>_. False", OF Nil.prems(1) ord lcss lT pT]
  show ?case
    unfolding body T_def by simp
next
  case (Cons t' ts)
  from Cons.prems(2) have ord: "lo \<le> start t" "start t \<le> end' t"
    and rest: "inSourceOrder (end' t) (t' # ts) (int (length text))"
    by simp_all
  have e0: "0 \<le> end' t" using ord Cons.prems(1) by linarith
  have ele: "end' t \<le> int (length text)"
    using inSourceOrder_le [OF rest] .
  from Cons.prems(3) obtain css body' where
    css: "replaceExpressionPattern (slice text (start t) (end' t)) = Inr css"
    and body': "maskTemplates text (t' # ts) = Inr body'"
    and body: "body = css @ replaceDotWithSpace (slice text (end' t) (start t')) @ body'"
    by (auto simp: Let_def split: sum.splits)
  have lcss: "length css = nat (end' t - start t)"
    using length_replaceExpressionPattern [OF css] ord ele Cons.prems(1) by (simp add: length_slice_within)
  define G' where "G' = replaceDotWithSpace (slice text (end' t) (start t')) @ body' @
      replaceDotWithSpace (slice text (end' (last (t' # ts))) (int (length text)))"
  from Cons.IH [OF e0 rest body']
  have lG: "length G' = length text - nat (end' t)"
    and pG: "\<And>p. nat (end' t) \<le> p \<Longrightarrow> p < length text \<Longrightarrow> \<not> insideRange (t' # ts) (int p) \<Longrightarrow>
       G' ! (p - nat (end' t)) = (if isLineTerminator (text ! p) then text ! p else 0x20)"
    unfolding G'_def by blast+
  from mask_compose [where Q = "\<lambda>p. insideRange (t' # ts) (int p)", OF Cons.prems(1) ord ele lcss lG pG]
  show ?case
    unfolding body G'_def by simp
qed
lemma maskedText_positions:
  assumes ord: "inSourceOrder 0 templates (int (length text))"
    and res: "maskedText text templates = Inr r"
  shows "length r = length text"
    and "p < length text \<Longrightarrow> \<not> insideRange templates (int p) \<Longrightarrow>
         r ! p = (if isLineTerminator (text ! p) then text ! p else 0x20)"
proof -
  from res obtain t ts where ts: "templates = t # ts"
    by (cases templates) (auto simp: maskedText_def)
  with res obtain body where body: "maskTemplates text (t # ts) = Inr body"
    and r: "r = replaceDotWithSpace (slice text 0 (start t)) @ body @
                replaceDotWithSpace (slice text (end' (last (t # ts))) (int (length text)))"
    by (auto simp: maskedText_def split: sum.splits)
  have zero: "(0::int) \<le> 0"
    by simp
  from maskTemplates_positions [OF zero ord [unfolded ts] body]
  have len: "length r = length text - nat 0"
    and pos: "\<forall>p. nat 0 \<le> p \<and> p < length text \<and> \<not> insideRange (t # ts) (int p) \<longrightarrow>
                r ! (p - nat 0) = (if isLineTerminator (text ! p) then text ! p else 0x20)"
    unfolding r by blast+
  from len show "length r = length text"
    by simp
  assume "p < length text" and "\<not> insideRange templates (int p)"
  with pos ts have "r ! (p - nat 0) = (if isLineTerminator (text ! p) then text ! p else 0x20)"
    by simp
  then show "r ! p = (if isLineTerminator (text ! p) then text ! p else 0x20)"
    by simp
qed

lemma replaceAllWithSpacesExceptCss_text:
  "replaceAllWithSpacesExceptCss document templates stylesheets = Inr sj \<Longrightarrow>
   maskedText (getText document) templates = Inr (getText (cssDocument sj))"
  by (auto simp: replaceAllWithSpacesExceptCss_def Let_def split: sum.splits)

text \<open>
  For template ranges in source order the masker keeps the length of the text
  whenever it returns.
\<close>

lemma length_masked_inSourceOrder:
  assumes "inSourceOrder 0 templates (int (length (getText document)))"
    and "replaceAllWithSpacesExceptCss document templates stylesheets = Inr sj"
  shows "length (getText (cssDocument sj)) = length (getText document)"
  using maskedText_positions(1) [OF assms(1) replaceAllWithSpacesExceptCss_text [OF assms(2)]] .

theorem length_masked_inSourceOrder_witness:
  "inSourceOrder 0 [\<lparr>start = 4, end' = 5\<rparr>, \<lparr>start = 11, end' = 13\<rparr>]
     (int (length (getText (exampleDocument twoText)))) \<and>
   (\<exists>sj. replaceAllWithSpacesExceptCss (exampleDocument twoText)
           [\<lparr>start = 4, end' = 5\<rparr>, \<lparr>start = 11, end' = 13\<rparr>] (\<lambda>_. ()) = Inr sj \<and>
         length (getText (cssDocument sj)) = 14)"
proof -
  let ?d = "exampleDocument twoText"
  let ?ts = "[\<lparr>start = 4, end' = 5\<rparr>, \<lparr>start = 11, end' = 13\<rparr>]"
  have ord: "inSourceOrder 0 ?ts (int (length (getText ?d)))"
    by (simp add: exampleDocument_def twoText_def str_def)
  obtain sj where sj: "replaceAllWithSpacesExceptCss ?d ?ts (\<lambda>_. ()) = Inr sj"
    by (simp add: exampleDocument_def twoText_def mask_eval string_eval)
  have "length (getText (cssDocument sj)) = 14"
    using length_masked_inSourceOrder [OF ord sj]
    by (simp add: exampleDocument_def twoText_def str_def)
  with ord sj show ?thesis
    by blast
qed

text \<open>
  The first alternative of the expression pattern is greedy: it runs from \<open>${\<close> to the
  last closing brace of the line. In \<^verbatim>\<open>.b { color: ${color} }\<close> the closing brace of
  the rule is blanked together with the interpolation.
\<close>

theorem interpolation_blanked_to_last_brace:
  "replaceExpressionPattern (str ''.b { color: ${color} }'') = Inr (str ''.b { color:           '')"
  by (simp add: execExpressionPattern_def string_eval)

text \<open>
  C1. The masked text has the length of the document text. This fails for the ranges
  of nested templates: the locator returns the outer range \<open>[4, 19)\<close> followed by the
  inner range \<open>[13, 14)\<close>, and the masker, built for ranges that follow one another,
  returns 26 code units for a document of 20.
\<close>

theorem nested_templates_change_length:
  "findStyledJsxTaggedTemplate (\<lambda>_ _. Some nestedSource) (exampleDocument nestedText)
     (getApproximateStyledJsxOffsets (exampleDocument nestedText))
     = Inr [\<lparr>start = 4, end' = 19\<rparr>, \<lparr>start = 13, end' = 14\<rparr>] \<and>
   (\<exists>sj. getStyledJsx (\<lambda>_ _. Some nestedSource) (exampleDocument nestedText) (\<lambda>_. ()) = Inr (Some sj) \<and>
         length (getText (cssDocument sj)) = 26) \<and>
   length (getText (exampleDocument nestedText)) = 20"
  by (simp add: getStyledJsx_def nestedSource_def exampleDocument_def nestedText_def
      tree_eval scan_eval mask_eval string_eval)

text \<open>
  C2. Inside a template range the masker keeps every character outside an
  interpolation or operator match, blanks the matches, and does not fault on \<open>&&\<close> and
  \<open>||\<close>. The last part fails: for an operator match capture group 1 is \<open>undefined\<close>
  and the replacement callback throws. Here the interpolation has no closing brace on
  the line of \<open>&&\<close>, so the operator is matched on its own.
\<close>

theorem operator_match_throws:
  "findStyledJsxTaggedTemplate (\<lambda>_ _. Some operatorSource) (exampleDocument operatorText)
     (getApproximateStyledJsxOffsets (exampleDocument operatorText))
     = Inr [\<lparr>start = 4, end' = 13\<rparr>] \<and>
   getStyledJsx (\<lambda>_ _. Some operatorSource) (exampleDocument operatorText) (\<lambda>_. ())
     = Inl (TypeError ''replace'')"
  by (simp add: getStyledJsx_def operatorSource_def exampleDocument_def operatorText_def
      tree_eval scan_eval mask_eval string_eval)

text \<open>
  C4. Outside every template range the synthetic document holds a space, also where
  the original holds a newline. As stated this fails: \<open>.\<close> does not match a line
  terminator, so line terminators are kept. The position 1 of the example holds the
  line feed before and after masking.
\<close>

theorem newline_outside_range_is_kept:
  "findStyledJsxTaggedTemplate (\<lambda>_ _. Some newlineSource) (exampleDocument newlineText)
     (getApproximateStyledJsxOffsets (exampleDocument newlineText))
     = Inr [\<lparr>start = 6, end' = 7\<rparr>] \<and>
   \<not> insideRange [\<lparr>start = 6, end' = 7\<rparr>] 1 \<and>
   (\<exists>sj. getStyledJsx (\<lambda>_ _. Some newlineSource) (exampleDocument newlineText) (\<lambda>_. ()) = Inr (Some sj) \<and>
         getText (cssDocument sj) ! 1 = 0x0A \<and> getText (cssDocument sj) ! 1 \<noteq> 0x20)"
  by (simp add: getStyledJsx_def newlineSource_def exampleDocument_def newlineText_def
      tree_eval scan_eval mask_eval string_eval)

text \<open>
  C4, amended. For template ranges in source order, whenever the masker returns, the
  synthetic document holds at every position outside the ranges a space, or the
  original character where that is a line terminator.
\<close>

theorem outside_ranges_blank_or_line_terminator:
  assumes "inSourceOrder 0 templates (int (length (getText document)))"
    and "replaceAllWithSpacesExceptCss document templates stylesheets = Inr sj"
    and "p < length (getText document)"
    and "\<not> insideRange templates (int p)"
  shows "getText (cssDocument sj) ! p =
         (if isLineTerminator (getText document ! p) then getText document ! p else 0x20)"
  using maskedText_positions(2) [OF assms(1) replaceAllWithSpacesExceptCss_text [OF assms(2)] assms(3,4)] .

theorem outside_ranges_blank_or_line_terminator_witness:
  "inSourceOrder 0 [\<lparr>start = 6, end' = 7\<rparr>] (int (length (getText (exampleDocument newlineText)))) \<and>
   (\<exists>sj. replaceAllWithSpacesExceptCss (exampleDocument newlineText) [\<lparr>start = 6, end' = 7\<rparr>] (\<lambda>_. ()) = Inr sj \<and>
         getText (cssDocument sj) ! 0 = 0x20 \<and> getText (cssDocument sj) ! 1 = 0x0A)"
proof -
  let ?d = "exampleDocument newlineText"
  let ?ts = "[\<lparr>start = 6, end' = 7\<rparr>]"
  obtain sj where sj: "replaceAllWithSpacesExceptCss ?d ?ts (\<lambda>_. ()) = Inr sj"
    by (simp add: exampleDocument_def newlineText_def mask_eval string_eval)
  have ord: "inSourceOrder 0 ?ts (int (length (getText ?d)))"
    by (simp add: exampleDocument_def newlineText_def str_def)
  have p0: "0 < length (getText ?d)" and p1: "1 < length (getText ?d)"
    by (simp_all add: exampleDocument_def newlineText_def str_def)
  have out0: "\<not> insideRange ?ts (int 0)" and out1: "\<not> insideRange ?ts (int 1)"
    by simp_all
  have "getText (cssDocument sj) ! 0 = 0x20"
    using outside_ranges_blank_or_line_terminator [OF ord sj p0 out0]
    by (simp add: exampleDocument_def newlineText_def str_def isLineTerminator_def)
  moreover have "getText (cssDocument sj) ! 1 = 0x0A"
    using outside_ranges_blank_or_line_terminator [OF ord sj p1 out1]
    by (simp add: exampleDocument_def newlineText_def str_def isLineTerminator_def)
  ultimately show ?thesis
    using ord sj by blast
qed

section \<open>Properties of the locator\<close>


lemma collectTemplate_error:
  "collectTemplate parents n ts = Inl e \<Longrightarrow>
   e \<in> {TypeError ''kind'', TypeError ''getText'', TypeError ''tagName'', TypeError ''properties''}"
  by (auto simp: collectTemplate_def isStyledJsxTaggedTemplate_def isStyledJsxTemplate_def
      split: option.splits sum.splits bool.splits if_splits prod.splits list.splits)

lemma walk_thrown:
  fixes callback :: "node list \<Rightarrow> node \<Rightarrow> 's \<Rightarrow> error + 's"
  shows "\<forall>ps m st err. callback ps m st = Inl err \<longrightarrow> err \<in> E \<Longrightarrow>
     snd (walk parents n callback sc) = Some e \<Longrightarrow> e \<in> E"
  and "\<forall>ps m st err. callback ps m st = Inl err \<longrightarrow> err \<in> E \<Longrightarrow>
     snd (forEachChild parents cs callback sc) = Some e \<Longrightarrow> e \<in> E"
proof (induction parents n callback sc and parents cs callback sc rule: walk_forEachChild.induct)
  case (1 parents k s e' t cs callback st console)
  from "1.prems"(2) have tok: "isToken k \<and> k \<noteq> EndOfFileToken"
    and skip: "\<not> (k = JSDoc \<or> k = MultiLineCommentTrivia \<or> k = SingleLineCommentTrivia)"
    by (auto split: if_splits prod.splits option.splits)
  with "1.prems"(2) have "callback parents (Node k s e' t cs) st = Inl e"
    by (auto split: sum.splits)
  with "1.prems"(1) show ?case by blast
next
  case (2 parents callback sc)
  then show ?case by simp
next
  case (3 parents c cs callback sc)
  obtain sc' thrown where w: "walk parents c callback sc = (sc', thrown)"
    by (cases "walk parents c callback sc")
  show ?case
  proof (cases thrown)
    case None
    with w "3.prems"(2) have "snd (forEachChild parents cs callback sc') = Some e"
      by simp
    with "3.IH"(2) [OF w [symmetric] None "3.prems"(1)] show ?thesis .
  next
    case (Some err)
    with w "3.prems"(2) have "snd (walk parents c callback sc) = Some e"
      by simp
    with "3.IH"(1) [OF "3.prems"(1)] show ?thesis .
  qed
qed

lemma hasJsxProperty_list_ex: "hasJsxProperty props \<longleftrightarrow> list_ex namedJsx props"
  by (induction props) (auto simp: namedJsx_def split: option.splits)

lemma isStyledJsxTaggedTemplate_True:
  "isStyledJsxTaggedTemplate ps t = Inr True \<longleftrightarrow> taggedWithCss ps"
  by (auto simp: isStyledJsxTaggedTemplate_def taggedWithCss_def split: list.splits option.splits)

lemma isStyledJsxTemplate_True:
  "isStyledJsxTemplate ps t = Inr True \<longleftrightarrow> insideStyleJsx ps"
  by (auto simp: isStyledJsxTemplate_def insideStyleJsx_def hasJsxProperty_list_ex
      split: list.splits option.splits)

lemma walk_comment:
  "kind n = JSDoc \<or> kind n = MultiLineCommentTrivia \<or> kind n = SingleLineCommentTrivia \<Longrightarrow>
   walk parents n callback sc = (sc, None)"
  by (cases n; cases sc) auto

lemma walk_token:
  "isToken (kind n) \<Longrightarrow> kind n \<noteq> EndOfFileToken \<Longrightarrow> kind n \<noteq> MultiLineCommentTrivia \<Longrightarrow>
   kind n \<noteq> SingleLineCommentTrivia \<Longrightarrow>
   walk parents n callback sc =
     (case callback parents n (fst sc) of
        Inl err \<Rightarrow> (sc, Some err)
      | Inr st' \<Rightarrow> ((st', snd sc), None))"
  by (cases n; cases sc) (auto split: sum.splits)

lemma walk_children:
  "kind n \<noteq> JSDoc \<Longrightarrow> kind n \<noteq> MultiLineCommentTrivia \<Longrightarrow> kind n \<noteq> SingleLineCommentTrivia \<Longrightarrow>
   \<not> (isToken (kind n) \<and> kind n \<noteq> EndOfFileToken) \<Longrightarrow>
   forEachChild (n # parents) (children n) callback sc = (sc', None) \<Longrightarrow>
   walk parents n callback sc = (sc', None)"
  by (cases n; cases sc) auto

lemma templateLiterals_unfold:
  "templateLiterals parents n =
     (if kind n = JSDoc \<or> kind n = MultiLineCommentTrivia \<or> kind n = SingleLineCommentTrivia then []
      else (if kind n = NoSubstitutionTemplateLiteral \<or> kind n = TemplateExpression
            then [(parents, n)] else []) @
           templateLiteralsOf (n # parents) (children n))"
  by (cases n) simp

lemma wellShaped_unfold: "wellShaped n \<longleftrightarrow> localShape n \<and> list_all wellShaped (children n)"
  by (cases n) simp

lemma styledJsxRanges_append [simp]:
  "styledJsxRanges (xs @ ys) = styledJsxRanges xs @ styledJsxRanges ys"
  by (simp add: styledJsxRanges_def)

lemma styledJsxRanges_Nil [simp]: "styledJsxRanges [] = []"
  by (simp add: styledJsxRanges_def)

lemma styledJsxRanges_single:
  "styledJsxRanges [(ps, t)] = (if taggedWithCss ps \<or> insideStyleJsx ps then [templateRange t] else [])"
  by (simp add: styledJsxRanges_def)

lemma rooted_Cons: "rooted path \<Longrightarrow> localShape n \<Longrightarrow> rooted (n # path)"
  by (simp add: rooted_def)

lemma rooted_tl: "rooted (n # path) \<Longrightarrow> kind n \<noteq> SourceFile \<Longrightarrow> rooted path"
  by (auto simp: rooted_def split: if_splits)

lemma rooted_up: "rooted path \<Longrightarrow> kind (hd path) \<noteq> SourceFile \<longrightarrow> rooted (tl path)"
  by (cases path) (auto simp: rooted_def split: if_splits)

lemma collectTemplate_template:
  assumes g: "getTemplateString parents node = Some (ps, t)"
    and r: "rooted ps"
    and k: "kind (hd ps) \<noteq> SourceFile \<longrightarrow> rooted (tl ps)"
  shows "collectTemplate parents node ts = Inr (ts @ styledJsxRanges [(ps, t)])"
proof -
  from r obtain p up where ps: "ps = p # up" and p: "localShape p"
    by (cases ps) (auto simp: rooted_def)
  have "\<exists>b. isStyledJsxTaggedTemplate ps t = Inr b"
    using p by (auto simp: ps isStyledJsxTaggedTemplate_def localShape_def split: option.splits)
  then obtain b where b: "isStyledJsxTaggedTemplate ps t = Inr b" ..
  have "\<exists>c. isStyledJsxTemplate ps t = Inr c"
  proof (cases "kind p = JsxExpression")
    case False
    then have "isStyledJsxTemplate ps t = Inr False"
      by (simp add: ps isStyledJsxTemplate_def)
    then show ?thesis ..
  next
    case True
    with k ps have "rooted up"
      by simp
    then obtain g rest where up: "up = g # rest" and gs: "localShape g"
      by (cases up) (auto simp: rooted_def)
    show ?thesis
    proof (cases "kind g = JsxElement")
      case False
      with True have "isStyledJsxTemplate ps t = Inr False"
        by (simp add: ps up isStyledJsxTemplate_def)
      then show ?thesis ..
    next
      case jsx: True
      with gs obtain opener where o: "openingElement g = Some opener"
        and tn: "tagName opener \<noteq> None" and at: "attributes opener \<noteq> None"
        by (auto simp: localShape_def split: option.splits)
      with True jsx show ?thesis
        by (auto simp: ps up isStyledJsxTemplate_def split: option.splits)
    qed
  qed
  then obtain c where c: "isStyledJsxTemplate ps t = Inr c" ..
  have bt: "b \<longleftrightarrow> taggedWithCss ps"
    using isStyledJsxTaggedTemplate_True [of ps t] b by auto
  have ct: "c \<longleftrightarrow> insideStyleJsx ps"
    using isStyledJsxTemplate_True [of ps t] c by auto
  show ?thesis
    using g b c bt ct by (cases b; cases c) (simp_all add: collectTemplate_def styledJsxRanges_single)
qed

lemma forEachChild_located:
  assumes ih: "\<forall>c \<in> set cs. \<forall>sc. kind c \<noteq> TemplateHead \<and> wellShaped c \<and> rooted (c # ps) \<longrightarrow>
      walk ps c collectTemplate sc
        = ((fst sc @ styledJsxRanges (templateLiterals ps c), snd sc), None)"
    and cs: "list_all (\<lambda>c. kind c \<noteq> TemplateHead) cs" "list_all wellShaped cs"
    and r: "rooted ps"
  shows "forEachChild ps cs collectTemplate sc
        = ((fst sc @ styledJsxRanges (templateLiteralsOf ps cs), snd sc), None)"
  using ih cs
proof (induction cs arbitrary: sc)
  case Nil
  then show ?case by simp
next
  case (Cons c cs)
  from Cons.prems(3) have "localShape c"
    by (simp add: wellShaped_unfold [of c])
  with r have "rooted (c # ps)"
    by (rule rooted_Cons)
  moreover have "c \<in> set (c # cs)"
    by simp
  from bspec [OF Cons.prems(1) this]
  have "kind c \<noteq> TemplateHead \<and> wellShaped c \<and> rooted (c # ps) \<longrightarrow>
      walk ps c collectTemplate sc
        = ((fst sc @ styledJsxRanges (templateLiterals ps c), snd sc), None)" ..
  moreover from Cons.prems(2,3) have "kind c \<noteq> TemplateHead" "wellShaped c"
    by simp_all
  ultimately have w: "walk ps c collectTemplate sc
      = ((fst sc @ styledJsxRanges (templateLiterals ps c), snd sc), None)"
    by blast
  have ih': "\<forall>c' \<in> set cs. \<forall>sc. kind c' \<noteq> TemplateHead \<and> wellShaped c' \<and> rooted (c' # ps) \<longrightarrow>
      walk ps c' collectTemplate sc
        = ((fst sc @ styledJsxRanges (templateLiterals ps c'), snd sc), None)"
  proof
    fix c'
    assume "c' \<in> set cs"
    then have "c' \<in> set (c # cs)"
      by simp
    from bspec [OF Cons.prems(1) this]
    show "\<forall>sc. kind c' \<noteq> TemplateHead \<and> wellShaped c' \<and> rooted (c' # ps) \<longrightarrow>
      walk ps c' collectTemplate sc
        = ((fst sc @ styledJsxRanges (templateLiterals ps c'), snd sc), None)" .
  qed
  from Cons.prems(2) have h1: "list_all (\<lambda>c. kind c \<noteq> TemplateHead) cs"
    by simp
  from Cons.prems(3) have h2: "list_all wellShaped cs"
    by simp
  let ?sc = "(fst sc @ styledJsxRanges (templateLiterals ps c), snd sc)"
  have "forEachChild ps cs collectTemplate ?sc
      = ((fst ?sc @ styledJsxRanges (templateLiteralsOf ps cs), snd ?sc), None)"
    using ih' h1 h2 by (rule Cons.IH)
  then have "forEachChild ps cs collectTemplate ?sc
      = ((fst sc @ styledJsxRanges (templateLiterals ps c)
            @ styledJsxRanges (templateLiteralsOf ps cs), snd sc), None)"
    by simp
  with w show ?case
    by simp
qed

lemma walk_located:
  "kind n \<noteq> TemplateHead \<and> wellShaped n \<and> rooted (n # parents) \<longrightarrow>
   walk parents n collectTemplate sc
     = ((fst sc @ styledJsxRanges (templateLiterals parents n), snd sc), None)"
proof (induction n arbitrary: parents sc)
  case (Node k s e t cs)
  let ?n = "Node k s e t cs"
  show ?case
  proof (intro impI)
    assume a: "kind ?n \<noteq> TemplateHead \<and> wellShaped ?n \<and> rooted (?n # parents)"
    then have shape: "localShape ?n" and sub: "list_all wellShaped cs" and r: "rooted (?n # parents)"
      and nh: "k \<noteq> TemplateHead"
      by simp_all
    have ih: "\<forall>c \<in> set cs. \<forall>sc. kind c \<noteq> TemplateHead \<and> wellShaped c \<and> rooted (c # ?n # parents) \<longrightarrow>
        walk (?n # parents) c collectTemplate sc
          = ((fst sc @ styledJsxRanges (templateLiterals (?n # parents) c), snd sc), None)"
      using Node.IH by blast
    show "walk parents ?n collectTemplate sc
        = ((fst sc @ styledJsxRanges (templateLiterals parents ?n), snd sc), None)"
    proof (cases "k = JSDoc \<or> k = MultiLineCommentTrivia \<or> k = SingleLineCommentTrivia")
      case True
      then have "walk parents ?n collectTemplate sc = (sc, None)"
        by (intro walk_comment) simp
      with True show ?thesis
        by auto
    next
      case skip: False
      show ?thesis
      proof (cases "isToken k \<and> k \<noteq> EndOfFileToken")
        case tok: True
        with shape have leaf: "cs = []"
          by (simp add: localShape_def)
        have w: "walk parents ?n collectTemplate sc =
            (case collectTemplate parents ?n (fst sc) of
               Inl err \<Rightarrow> (sc, Some err)
             | Inr st' \<Rightarrow> ((st', snd sc), None))"
          using tok skip by (intro walk_token) simp_all
        show ?thesis
        proof (cases "k = NoSubstitutionTemplateLiteral")
          case True
          then have g: "getTemplateString parents ?n = Some (parents, ?n)"
            by (simp add: getTemplateString_def isTemplateHead_def isTemplateLiteral_def)
          from r have rp: "rooted parents"
            by (rule rooted_tl) (simp add: True)
          then have "kind (hd parents) \<noteq> SourceFile \<longrightarrow> rooted (tl parents)"
            by (rule rooted_up)
          with g rp have "collectTemplate parents ?n (fst sc)
              = Inr (fst sc @ styledJsxRanges [(parents, ?n)])"
            by (intro collectTemplate_template)
          with w True leaf show ?thesis
            by simp
        next
          case False
          with nh tok have "getTemplateString parents ?n = None"
            by (auto simp: getTemplateString_def isTemplateHead_def isTemplateLiteral_def)
          then have "collectTemplate parents ?n (fst sc) = Inr (fst sc)"
            by (simp add: collectTemplate_def)
          with w False leaf skip tok show ?thesis
            by auto
        qed
      next
        case nontok: False
        show ?thesis
        proof (cases "k = TemplateExpression")
          case False
          with shape have heads: "list_all (\<lambda>c. kind c \<noteq> TemplateHead) cs"
            by (simp add: localShape_def)
          have "forEachChild (?n # parents) cs collectTemplate sc
              = ((fst sc @ styledJsxRanges (templateLiteralsOf (?n # parents) cs), snd sc), None)"
            using ih heads sub r by (rule forEachChild_located)
          then have "walk parents ?n collectTemplate sc
              = ((fst sc @ styledJsxRanges (templateLiteralsOf (?n # parents) cs), snd sc), None)"
            using skip nontok by (intro walk_children) simp_all
          moreover have "k \<noteq> NoSubstitutionTemplateLiteral"
            using nontok by auto
          ultimately show ?thesis
            using skip False by simp
        next
          case te: True
          with shape obtain head spans where cs: "cs = head # spans"
            and head: "kind head = TemplateHead"
            and heads: "list_all (\<lambda>c. kind c \<noteq> TemplateHead) spans"
            by (auto simp: localShape_def split: list.splits)
          from sub cs have hs: "localShape head"
            by (simp add: wellShaped_unfold [of head])
          with head have hleaf: "children head = []"
            by (simp add: localShape_def)
          have g: "getTemplateString (?n # parents) head = Some (parents, ?n)"
            using head by (simp add: getTemplateString_def isTemplateHead_def)
          from r have rp: "rooted parents"
            by (rule rooted_tl) (simp add: te)
          then have "kind (hd parents) \<noteq> SourceFile \<longrightarrow> rooted (tl parents)"
            by (rule rooted_up)
          with g rp have c: "collectTemplate (?n # parents) head (fst sc)
              = Inr (fst sc @ styledJsxRanges [(parents, ?n)])"
            by (intro collectTemplate_template)
          have "walk (?n # parents) head collectTemplate sc =
            (case collectTemplate (?n # parents) head (fst sc) of
               Inl err \<Rightarrow> (sc, Some err)
             | Inr st' \<Rightarrow> ((st', snd sc), None))"
            using head by (intro walk_token) simp_all
          with c have wh: "walk (?n # parents) head collectTemplate sc
              = ((fst sc @ styledJsxRanges [(parents, ?n)], snd sc), None)"
            by simp
          have ih': "\<forall>c \<in> set spans. \<forall>sc. kind c \<noteq> TemplateHead \<and> wellShaped c \<and> rooted (c # ?n # parents) \<longrightarrow>
              walk (?n # parents) c collectTemplate sc
                = ((fst sc @ styledJsxRanges (templateLiterals (?n # parents) c), snd sc), None)"
          proof
            fix c
            assume "c \<in> set spans"
            with cs have "c \<in> set cs"
              by simp
            from bspec [OF ih this]
            show "\<forall>sc. kind c \<noteq> TemplateHead \<and> wellShaped c \<and> rooted (c # ?n # parents) \<longrightarrow>
              walk (?n # parents) c collectTemplate sc
                = ((fst sc @ styledJsxRanges (templateLiterals (?n # parents) c), snd sc), None)" .
          qed
          have sub': "list_all wellShaped spans"
            using sub cs by simp
          have "forEachChild (?n # parents) spans collectTemplate
                  (fst sc @ styledJsxRanges [(parents, ?n)], snd sc)
              = ((fst (fst sc @ styledJsxRanges [(parents, ?n)], snd sc)
                    @ styledJsxRanges (templateLiteralsOf (?n # parents) spans),
                  snd (fst sc @ styledJsxRanges [(parents, ?n)], snd sc)), None)"
            using ih' heads sub' r by (rule forEachChild_located)
          then have "forEachChild (?n # parents) spans collectTemplate
                  (fst sc @ styledJsxRanges [(parents, ?n)], snd sc)
              = ((fst sc @ styledJsxRanges [(parents, ?n)]
                    @ styledJsxRanges (templateLiteralsOf (?n # parents) spans), snd sc), None)"
            by simp
          with wh cs have "forEachChild (?n # parents) (children ?n) collectTemplate sc
              = ((fst sc @ styledJsxRanges [(parents, ?n)]
                    @ styledJsxRanges (templateLiteralsOf (?n # parents) spans), snd sc), None)"
            by simp
          then have wn: "walk parents ?n collectTemplate sc
              = ((fst sc @ styledJsxRanges [(parents, ?n)]
                    @ styledJsxRanges (templateLiteralsOf (?n # parents) spans), snd sc), None)"
            using skip nontok by (intro walk_children) simp_all
          have "templateLiterals (?n # parents) head = []"
            using head hleaf by (simp add: templateLiterals_unfold [of _ head])
          then have "styledJsxRanges (templateLiterals parents ?n)
              = styledJsxRanges [(parents, ?n)]
                  @ styledJsxRanges (templateLiteralsOf (?n # parents) spans)"
            using te cs
              styledJsxRanges_append [of "[(parents, ?n)]" "templateLiteralsOf (?n # parents) spans"]
            by simp
          with wn show ?thesis
            by simp
        qed
      qed
    qed
  qed
qed

text \<open>
  In the utilities the server imports, \<open>findStyledJsxTaggedTemplate\<close> locates a template
  literal if and only if (a) its parent is a tagged template whose tag text contains
  \<open>css\<close>, or (b) it is the child of a JSX expression container in a JSX element named
  \<open>style\<close> with an attribute named \<open>jsx\<close>: on a tree of the shape the parser builds
  it returns the ranges of exactly these template literals of the tree, in source
  order.
\<close>

theorem located_templates:
  assumes "createSourceFile (getText d) (getScriptKind d) = Some source"
    and "kind source = SourceFile" and "wellShaped source"
  shows "findStyledJsxTaggedTemplate createSourceFile d offs
         = Inr (styledJsxRanges (templateLiterals [] source))"
proof -
  from assms(3) have "localShape source"
    by (simp add: wellShaped_unfold [of source])
  with assms(2) have "rooted [source]"
    by (simp add: rooted_def)
  with assms(2,3) have "walk [] source collectTemplate ([], [])
      = ((fst ([], []) @ styledJsxRanges (templateLiterals [] source), snd ([], [])), None)"
    using walk_located [of source "[]" "([], [])"] by simp
  with assms(1) show ?thesis
    by (simp add: findStyledJsxTaggedTemplate_def walkSource_def)
qed

theorem located_templates_witness:
  "findStyledJsxTaggedTemplate (\<lambda>_ _. Some nestedSource) (exampleDocument nestedText) []
     = Inr [\<lparr>start = 4, end' = 19\<rparr>, \<lparr>start = 13, end' = 14\<rparr>] \<and>
   findStyledJsxTaggedTemplate (\<lambda>_ _. Some attributeSource) (exampleDocument attributeText) []
     = Inr [\<lparr>start = 17, end' = 20\<rparr>] \<and>
   findStyledJsxTaggedTemplate (\<lambda>_ _. Some plainSource) (exampleDocument plainText) [] = Inr []"
proof -
  have "wellShaped nestedSource" "kind nestedSource = SourceFile"
    by (simp_all add: shape_eval example_eval tree_eval)
  from located_templates [where createSourceFile = "\<lambda>_ _. Some nestedSource"
      and d = "exampleDocument nestedText" and source = nestedSource and offs = "[]"] this
  have a: "findStyledJsxTaggedTemplate (\<lambda>_ _. Some nestedSource) (exampleDocument nestedText) []
      = Inr (styledJsxRanges (templateLiterals [] nestedSource))"
    by simp
  have "wellShaped attributeSource" "kind attributeSource = SourceFile"
    by (simp_all add: shape_eval example_eval tree_eval)
  from located_templates [where createSourceFile = "\<lambda>_ _. Some attributeSource"
      and d = "exampleDocument attributeText" and source = attributeSource and offs = "[]"] this
  have b: "findStyledJsxTaggedTemplate (\<lambda>_ _. Some attributeSource) (exampleDocument attributeText) []
      = Inr (styledJsxRanges (templateLiterals [] attributeSource))"
    by simp
  have "wellShaped plainSource" "kind plainSource = SourceFile"
    by (simp_all add: shape_eval example_eval tree_eval)
  from located_templates [where createSourceFile = "\<lambda>_ _. Some plainSource"
      and d = "exampleDocument plainText" and source = plainSource and offs = "[]"] this
  have c: "findStyledJsxTaggedTemplate (\<lambda>_ _. Some plainSource) (exampleDocument plainText) []
      = Inr (styledJsxRanges (templateLiterals [] plainSource))"
    by simp
  have "styledJsxRanges (templateLiterals [] nestedSource)
      = [\<lparr>start = 4, end' = 19\<rparr>, \<lparr>start = 13, end' = 14\<rparr>]"
    by (simp add: shape_eval example_eval tree_eval string_eval)
  moreover have "styledJsxRanges (templateLiterals [] attributeSource) = [\<lparr>start = 17, end' = 20\<rparr>]"
    by (simp add: shape_eval example_eval tree_eval string_eval)
  moreover have "styledJsxRanges (templateLiterals [] plainSource) = []"
    by (simp add: shape_eval example_eval tree_eval string_eval)
  ultimately show ?thesis
    using a b c by simp
qed








text \<open>
  C10. The result of \<open>findStyledJsxTaggedTemplate\<close> does not depend on the offsets it is
  given; with the single cursor offset it finds the same templates as with the
  offsets of the scanner.
\<close>

theorem locator_ignores_cursor_offsets:
  "findStyledJsxTaggedTemplate createSourceFile d offsets1
     = findStyledJsxTaggedTemplate createSourceFile d offsets2 \<and>
   findStyledJsxTaggedTemplate createSourceFile d [cursorOffset]
     = findStyledJsxTaggedTemplate createSourceFile d (getApproximateStyledJsxOffsets d)"
  by (simp add: findStyledJsxTaggedTemplate_def)

theorem locator_ignores_cursor_offsets_witness:
  "findStyledJsxTaggedTemplate (\<lambda>_ _. Some twoSource) (exampleDocument twoText) [12]
     = Inr [\<lparr>start = 4, end' = 5\<rparr>, \<lparr>start = 11, end' = 13\<rparr>] \<and>
   findStyledJsxTaggedTemplate (\<lambda>_ _. Some twoSource) (exampleDocument twoText) [12]
     = findStyledJsxTaggedTemplate (\<lambda>_ _. Some twoSource) (exampleDocument twoText) [4, 11]"
  using locator_ignores_cursor_offsets [of "\<lambda>_ _. Some twoSource" "exampleDocument twoText" "[12]" "[4, 11]" 12]
  by (simp add: example_eval tree_eval string_eval)

section \<open>Properties of the extraction\<close>

text \<open>
  C3. \<open>getStyledJsxUnderCursor\<close> returns a result if and only if the cursor lies
  strictly inside some located template range. The code tests the first located range
  only: with the cursor at 12, strictly inside the second range \<open>[11, 13)\<close> of the
  example, it returns \<open>undefined\<close>.
\<close>
theorem cursor_in_second_template_not_found:
  "findStyledJsxTaggedTemplate (\<lambda>_ _. Some twoSource) (exampleDocument twoText) [12]
     = Inr [\<lparr>start = 4, end' = 5\<rparr>, \<lparr>start = 11, end' = 13\<rparr>] \<and>
   (11 :: int) < 12 \<and> (13 :: int) > 12 \<and>
   getStyledJsxUnderCursor (\<lambda>_ _. Some twoSource) (exampleDocument twoText) (\<lambda>_. ()) 12 = Inr None"
  by (simp add: getStyledJsxUnderCursor_def example_eval tree_eval string_eval)

text \<open>
  \<open>getStyledJsxUnderCursor\<close> returns a result only when the first located range holds
  the cursor strictly inside; a cursor on a boundary of that range gives \<open>undefined\<close>.
\<close>

theorem under_cursor_only_first_range:
  assumes "getStyledJsxUnderCursor createSourceFile d stylesheets cursorOffset = Inr (Some sj)"
  shows "\<exists>t ts. findStyledJsxTaggedTemplate createSourceFile d [cursorOffset] = Inr (t # ts) \<and>
                start t < cursorOffset \<and> cursorOffset < end' t"
  using assms
  by (auto simp: getStyledJsxUnderCursor_def split: sum.splits list.splits if_splits)

theorem under_cursor_only_first_range_witness:
  "(\<exists>sj. getStyledJsxUnderCursor (\<lambda>_ _. Some attributeSource) (exampleDocument attributeText) (\<lambda>_. ()) 18
          = Inr (Some sj)) \<and>
   (\<exists>t ts. findStyledJsxTaggedTemplate (\<lambda>_ _. Some attributeSource) (exampleDocument attributeText) [18]
             = Inr (t # ts) \<and> start t < 18 \<and> 18 < end' t)"
proof -
  obtain sj where sj: "getStyledJsxUnderCursor (\<lambda>_ _. Some attributeSource)
      (exampleDocument attributeText) (\<lambda>_. ()) 18 = Inr (Some sj)"
    by (simp add: getStyledJsxUnderCursor_def example_eval tree_eval mask_eval string_eval)
  from under_cursor_only_first_range [OF sj] sj show ?thesis
    by blast
qed

lemma maskTemplates_error:
  "maskTemplates text templates = Inl e \<Longrightarrow> e = TypeError ''replace''"
  by (induction templates)
     (auto simp: Let_def split: sum.splits dest: replaceExpressionPattern_error)

lemma replaceAllWithSpacesExceptCss_error:
  assumes "replaceAllWithSpacesExceptCss d templates stylesheets = Inl e"
    and "templates \<noteq> []"
  shows "e = TypeError ''replace''"
proof -
  from assms obtain t ts where "templates = t # ts"
    by (cases templates) auto
  with assms(1) have "maskTemplates (getText d) templates = Inl e"
    by (auto simp: replaceAllWithSpacesExceptCss_def maskedText_def Let_def split: sum.splits)
  then show ?thesis
    by (rule maskTemplates_error)
qed

lemma findStyledJsxTaggedTemplate_error:
  assumes "findStyledJsxTaggedTemplate createSourceFile d offs = Inl e"
  shows "e \<noteq> TypeError ''start''"
proof -
  let ?E = "{TypeError ''kind'', TypeError ''getText'', TypeError ''tagName'', TypeError ''properties''}"
  have cb: "\<forall>ps m st err. collectTemplate ps m st = Inl err \<longrightarrow> err \<in> ?E"
    using collectTemplate_error by blast
  from assms have w: "snd (walkSource createSourceFile d) = Some e"
    by (auto simp: findStyledJsxTaggedTemplate_def split: prod.splits option.splits)
  show ?thesis
  proof (cases "createSourceFile (getText d) (getScriptKind d)")
    case None
    with w have "e = ParserError"
      by (simp add: walkSource_def)
    then show ?thesis
      by simp
  next
    case (Some source)
    with w have "snd (walk [] source collectTemplate ([], [])) = Some e"
      by (simp add: walkSource_def)
    then have "e \<in> ?E"
      by (rule walk_thrown(1) [OF cb])
    then show ?thesis
      by auto
  qed
qed

text \<open>
  C8. The masker reads the first and the last range without a test and throws on the
  empty list; \<open>getStyledJsx\<close> and \<open>getStyledJsxUnderCursor\<close> call it only with a list
  they have found non-empty, so that exception never leaves them.
\<close>

theorem masker_never_reached_with_empty_list:
  "replaceAllWithSpacesExceptCss d [] stylesheets = Inl (TypeError ''start'') \<and>
   getStyledJsx createSourceFile d stylesheets \<noteq> Inl (TypeError ''start'') \<and>
   getStyledJsxUnderCursor createSourceFile d stylesheets cursorOffset \<noteq> Inl (TypeError ''start'')"
proof (intro conjI)
  show "replaceAllWithSpacesExceptCss d [] stylesheets = Inl (TypeError ''start'')"
    by (simp add: replaceAllWithSpacesExceptCss_def maskedText_def)
  show "getStyledJsx createSourceFile d stylesheets \<noteq> Inl (TypeError ''start'')"
  proof
    assume a: "getStyledJsx createSourceFile d stylesheets = Inl (TypeError ''start'')"
    show False
    proof (cases "findStyledJsxTaggedTemplate createSourceFile d (getApproximateStyledJsxOffsets d)")
      case (Inl e)
      with a have "e = TypeError ''start''"
        by (auto simp: getStyledJsx_def Let_def split: if_splits)
      with findStyledJsxTaggedTemplate_error [OF Inl] show False
        by simp
    next
      case (Inr templates)
      with a have "templates \<noteq> []"
        and "replaceAllWithSpacesExceptCss d templates stylesheets = Inl (TypeError ''start'')"
        by (auto simp: getStyledJsx_def Let_def split: if_splits sum.splits)
      from replaceAllWithSpacesExceptCss_error [OF this(2,1)] show False
        by simp
    qed
  qed
  show "getStyledJsxUnderCursor createSourceFile d stylesheets cursorOffset \<noteq> Inl (TypeError ''start'')"
  proof
    assume a: "getStyledJsxUnderCursor createSourceFile d stylesheets cursorOffset = Inl (TypeError ''start'')"
    show False
    proof (cases "findStyledJsxTaggedTemplate createSourceFile d [cursorOffset]")
      case (Inl e)
      with a have "e = TypeError ''start''"
        by (auto simp: getStyledJsxUnderCursor_def)
      with findStyledJsxTaggedTemplate_error [OF Inl] show False
        by simp
    next
      case (Inr templates)
      with a have "templates \<noteq> []"
        and "replaceAllWithSpacesExceptCss d templates stylesheets = Inl (TypeError ''start'')"
        by (auto simp: getStyledJsxUnderCursor_def split: list.splits if_splits sum.splits)
      from replaceAllWithSpacesExceptCss_error [OF this(2,1)] show False
        by simp
    qed
  qed
qed

theorem masker_never_reached_with_empty_list_witness:
  "replaceAllWithSpacesExceptCss (exampleDocument plainText) [] (\<lambda>_. ()) = Inl (TypeError ''start'') \<and>
   getStyledJsx (\<lambda>_ _. Some plainSource) (exampleDocument plainText) (\<lambda>_. ()) = Inr None \<and>
   getStyledJsxUnderCursor (\<lambda>_ _. Some plainSource) (exampleDocument plainText) (\<lambda>_. ()) 5 = Inr None"
  using masker_never_reached_with_empty_list
    [of "exampleDocument plainText" "\<lambda>_. ()" "\<lambda>_ _. Some plainSource" 5]
  by (simp add: getStyledJsx_def getStyledJsxUnderCursor_def example_eval tree_eval scan_eval mask_eval string_eval)

section \<open>Properties of the server\<close>

lemma no_match_no_offsets:
  "search styledJsxPattern (getText d) = None \<Longrightarrow> getApproximateStyledJsxOffsets d = []"
  by (simp add: getApproximateStyledJsxOffsets_def exec_def)

lemma no_offsets_no_styledJsx:
  "getApproximateStyledJsxOffsets d = [] \<Longrightarrow> getStyledJsx createSourceFile d stylesheets = Inr None"
  by (simp add: getStyledJsx_def)

text \<open>
  C7. Without a match of the scanner pattern every feature handler answers with its
  empty result. This fails for completion, which asks \<open>getStyledJsxUnderCursor\<close> and
  so never consults the scanner: the scanner finds nothing in the example, and
  completion still answers from the CSS service.
\<close>

theorem completion_bypasses_scanner:
  "search styledJsxPattern (getText (exampleDocument attributeText)) = None \<and>
   getApproximateStyledJsxOffsets (exampleDocument attributeText) = [] \<and>
   onCompletion (\<lambda>_ _. Some attributeSource) (\<lambda>_. Some (exampleDocument attributeText)) (\<lambda>_. ())
     (\<lambda>_ _. 18) (\<lambda>cssDoc _ _. getText cssDoc) ''file:///example.js'' (0, 18)
     = Inr (Result (str ''                 b{}          ''))"
  by (simp add: onCompletion_def getStyledJsxUnderCursor_def
      example_eval tree_eval scan_eval mask_eval string_eval)

text \<open>
  C7, amended. Without a match of the scanner pattern the scanner returns the empty
  list, \<open>getStyledJsx\<close> returns \<open>undefined\<close>, every handler built on \<open>getStyledJsx\<close>
  answers \<open>null\<close> or the empty array, and validation publishes the empty list of
  diagnostics.
\<close>

theorem no_candidate_no_styled_jsx:
  assumes "search styledJsxPattern (getText d) = None"
    and "documents u = Some d"
  shows "getApproximateStyledJsxOffsets d = [] \<and>
     getStyledJsx createSourceFile d stylesheets = Inr None \<and>
     onHover createSourceFile documents stylesheets doHover u position = Inr Null \<and>
     onDocumentSymbol createSourceFile documents stylesheets findDocumentSymbols u = Inr Null \<and>
     onDefinition createSourceFile documents stylesheets findDefinition u position = Inr Null \<and>
     onDocumentHighlight createSourceFile documents stylesheets findDocumentHighlights u position
       = Inr Null \<and>
     onReferences createSourceFile documents stylesheets findReferences u position = Inr Null \<and>
     onCodeAction createSourceFile documents stylesheets doCodeActions u rng ctxt = Inr Null \<and>
     onDocumentColor createSourceFile documents stylesheets findDocumentColors u = Inr EmptyArray \<and>
     onColorPresentation createSourceFile documents stylesheets getColorPresentations u color rng
       = Inr EmptyArray \<and>
     onRenameRequest createSourceFile documents stylesheets doRename u position newName = Inr Null \<and>
     validateTextDocument createSourceFile stylesheets doValidation d settings
       = Inr (uri d, EmptyArray)"
proof -
  have offs: "getApproximateStyledJsxOffsets d = []"
    using assms(1) by (rule no_match_no_offsets)
  then have none: "getStyledJsx createSourceFile d stylesheets = Inr None"
    by (rule no_offsets_no_styledJsx)
  show ?thesis
    using offs none assms(2)
    by (simp add: onHover_def onDocumentSymbol_def onDefinition_def onDocumentHighlight_def
        onReferences_def onCodeAction_def onDocumentColor_def onColorPresentation_def
        onRenameRequest_def validateTextDocument_def clearDiagnostics_def)
qed

theorem no_candidate_no_styled_jsx_witness:
  "search styledJsxPattern (getText (exampleDocument plainText)) = None \<and>
   getStyledJsx (\<lambda>_ _. Some plainSource) (exampleDocument plainText) (\<lambda>_. ()) = Inr None \<and>
   onHover (\<lambda>_ _. Some plainSource) (\<lambda>_. Some (exampleDocument plainText)) (\<lambda>_. ())
     (\<lambda>_ _ _. ()) ''file:///example.js'' (0, 4) = Inr Null \<and>
   onDocumentColor (\<lambda>_ _. Some plainSource) (\<lambda>_. Some (exampleDocument plainText)) (\<lambda>_. ())
     (\<lambda>_ _. ()) ''file:///example.js'' = Inr EmptyArray \<and>
   validateTextDocument (\<lambda>_ _. Some plainSource) (\<lambda>_. ()) (\<lambda>_ _ _. ()) (exampleDocument plainText) ()
     = Inr (''file:///example.js'', EmptyArray)"
proof -
  have s: "search styledJsxPattern (getText (exampleDocument plainText)) = None"
    by (simp add: example_eval scan_eval string_eval)
  from no_candidate_no_styled_jsx [where d = "exampleDocument plainText"
      and documents = "\<lambda>_. Some (exampleDocument plainText)" and u = "''file:///example.js''"
      and createSourceFile = "\<lambda>_ _. Some plainSource" and stylesheets = "\<lambda>_. ()"
      and doHover = "\<lambda>_ _ _. ()" and position = "(0, 4)" and findDocumentColors = "\<lambda>_ _. ()"
      and doValidation = "\<lambda>_ _ _. ()" and settings = "()"
      and findDocumentSymbols = "\<lambda>_ _. ()" and findDefinition = "\<lambda>_ _ _. ()"
      and findDocumentHighlights = "\<lambda>_ _ _. ()" and findReferences = "\<lambda>_ _ _. ()"
      and doCodeActions = "\<lambda>_ _ _ _. ()" and rng = "((0, 0), (0, 4))" and ctxt = "()"
      and getColorPresentations = "\<lambda>_ _ _ _. ()" and color = "()"
      and doRename = "\<lambda>_ _ _ _. ()" and newName = "[]"] s
  show ?thesis
    by (simp add: exampleDocument_def)
qed

text \<open>
  C9. The capabilities declare rename unsupported and the rename operation always
  returns nothing. The second part fails: the handler answers with the result of the
  CSS service whenever the document holds styled-jsx.
\<close>

theorem rename_handler_answers:
  "renameProvider (onInitialize True) = False \<and>
   onRenameRequest (\<lambda>_ _. Some newlineSource) (\<lambda>_. Some (exampleDocument newlineText)) (\<lambda>_. ())
     (\<lambda>_ _ newName _. newName) ''file:///example.js'' (1, 4) (str ''b'')
     = Inr (Result (str ''b''))"
  by (simp add: onInitialize_def onRenameRequest_def getStyledJsx_def
      example_eval tree_eval scan_eval mask_eval string_eval)

text \<open>
  C9, amended. The capabilities declare rename unsupported. The handler that is wired
  up all the same answers \<open>null\<close> for an unknown document and when \<open>getStyledJsx\<close> returns
  \<open>undefined\<close>, answers with the result of \<open>doRename\<close> on the synthetic document when
  \<open>getStyledJsx\<close> returns one, and throws what \<open>getStyledJsx\<close> throws: there is no \<open>try\<close>
  in the handler.
\<close>

theorem rename_declared_off_but_handled:
  "renameProvider (onInitialize snippetSupport) = False \<and>
   (documents u = None \<longrightarrow>
      onRenameRequest createSourceFile documents stylesheets doRename u position newName = Inr Null) \<and>
   (documents u = Some d \<and> getStyledJsx createSourceFile d stylesheets = Inr None \<longrightarrow>
      onRenameRequest createSourceFile documents stylesheets doRename u position newName = Inr Null) \<and>
   (documents u = Some d \<and> getStyledJsx createSourceFile d stylesheets = Inr (Some sj) \<longrightarrow>
      onRenameRequest createSourceFile documents stylesheets doRename u position newName
        = Inr (Result (doRename (cssDocument sj) position newName (stylesheet sj)))) \<and>
   (documents u = Some d \<and> getStyledJsx createSourceFile d stylesheets = Inl e \<longrightarrow>
      onRenameRequest createSourceFile documents stylesheets doRename u position newName = Inl e)"
  by (simp add: onInitialize_def onRenameRequest_def)

theorem rename_declared_off_but_handled_witness:
  "renameProvider (onInitialize False) = False \<and>
   (\<exists>sj. getStyledJsx (\<lambda>_ _. Some newlineSource) (exampleDocument newlineText) (\<lambda>_. ()) = Inr (Some sj) \<and>
      onRenameRequest (\<lambda>_ _. Some newlineSource) (\<lambda>_. Some (exampleDocument newlineText)) (\<lambda>_. ())
        (\<lambda>cssDoc _ _ _. getText cssDoc) ''file:///example.js'' (1, 4) (str ''b'')
        = Inr (Result (getText (cssDocument sj)))) \<and>
   onRenameRequest (\<lambda>_ _. Some plainSource) (\<lambda>_. Some (exampleDocument plainText)) (\<lambda>_. ())
     (\<lambda>cssDoc _ _ _. getText cssDoc) ''file:///example.js'' (1, 4) (str ''b'') = Inr Null \<and>
   onRenameRequest (\<lambda>_ _. Some plainSource) (\<lambda>_. None) (\<lambda>_. ())
     (\<lambda>cssDoc _ _ _. getText cssDoc) ''file:///example.js'' (1, 4) (str ''b'') = Inr Null \<and>
   onRenameRequest (\<lambda>_ _. Some operatorSource) (\<lambda>_. Some (exampleDocument operatorText)) (\<lambda>_. ())
     (\<lambda>cssDoc _ _ _. getText cssDoc) ''file:///example.js'' (1, 4) (str ''b'')
     = Inl (TypeError ''replace'') \<and>
   onRenameRequest (\<lambda>_ _. None) (\<lambda>_. Some (exampleDocument operatorText)) (\<lambda>_. ())
     (\<lambda>cssDoc _ _ _. getText cssDoc) ''file:///example.js'' (1, 4) (str ''b'')
     = Inl ParserError"
proof -
  let ?doRename = "\<lambda>(cssDoc :: TextDocument) (_ :: Position) (_ :: jsstring) (_ :: unit). getText cssDoc"
  obtain sj where sj: "getStyledJsx (\<lambda>_ _. Some newlineSource) (exampleDocument newlineText) (\<lambda>_. ()) = Inr (Some sj)"
    by (simp add: getStyledJsx_def example_eval tree_eval scan_eval mask_eval string_eval)
  have none: "getStyledJsx (\<lambda>_ _. Some plainSource) (exampleDocument plainText) (\<lambda>_. ()) = Inr None"
    by (simp add: getStyledJsx_def example_eval scan_eval string_eval)
  have thrown: "getStyledJsx (\<lambda>_ _. Some operatorSource) (exampleDocument operatorText) (\<lambda>_. ())
      = Inl (TypeError ''replace'')"
    by (simp add: getStyledJsx_def example_eval tree_eval scan_eval mask_eval string_eval)
  have parser: "getStyledJsx (\<lambda>_ _. None) (exampleDocument operatorText) (\<lambda>_. ()) = Inl ParserError"
    by (simp add: getStyledJsx_def example_eval tree_eval scan_eval string_eval)
  from rename_declared_off_but_handled [where snippetSupport = False
      and documents = "\<lambda>_. Some (exampleDocument newlineText)" and u = "''file:///example.js''"
      and createSourceFile = "\<lambda>_ _. Some newlineSource" and stylesheets = "\<lambda>_. ()"
      and doRename = ?doRename and position = "(1, 4)" and newName = "str ''b''"
      and d = "exampleDocument newlineText" and sj = sj and e = ParserError] sj
  have a: "renameProvider (onInitialize False) = False"
    and b: "onRenameRequest (\<lambda>_ _. Some newlineSource) (\<lambda>_. Some (exampleDocument newlineText)) (\<lambda>_. ())
        ?doRename ''file:///example.js'' (1, 4) (str ''b'')
        = Inr (Result (getText (cssDocument sj)))"
    by simp_all
  from rename_declared_off_but_handled [where snippetSupport = False
      and documents = "\<lambda>_. Some (exampleDocument plainText)" and u = "''file:///example.js''"
      and createSourceFile = "\<lambda>_ _. Some plainSource" and stylesheets = "\<lambda>_. ()"
      and doRename = ?doRename and position = "(1, 4)" and newName = "str ''b''"
      and d = "exampleDocument plainText" and sj = sj and e = ParserError] none
  have c: "onRenameRequest (\<lambda>_ _. Some plainSource) (\<lambda>_. Some (exampleDocument plainText)) (\<lambda>_. ())
     ?doRename ''file:///example.js'' (1, 4) (str ''b'') = Inr Null"
    by simp
  from rename_declared_off_but_handled [where snippetSupport = False
      and documents = "\<lambda>_. None" and u = "''file:///example.js''"
      and createSourceFile = "\<lambda>_ _. Some plainSource" and stylesheets = "\<lambda>_. ()"
      and doRename = ?doRename and position = "(1, 4)" and newName = "str ''b''"
      and d = "exampleDocument plainText" and sj = sj and e = ParserError]
  have d: "onRenameRequest (\<lambda>_ _. Some plainSource) (\<lambda>_. None) (\<lambda>_. ())
     ?doRename ''file:///example.js'' (1, 4) (str ''b'') = Inr Null"
    by simp
  from rename_declared_off_but_handled [where snippetSupport = False
      and documents = "\<lambda>_. Some (exampleDocument operatorText)" and u = "''file:///example.js''"
      and createSourceFile = "\<lambda>_ _. Some operatorSource" and stylesheets = "\<lambda>_. ()"
      and doRename = ?doRename and position = "(1, 4)" and newName = "str ''b''"
      and d = "exampleDocument operatorText" and sj = sj and e = "TypeError ''replace''"] thrown
  have e: "onRenameRequest (\<lambda>_ _. Some operatorSource) (\<lambda>_. Some (exampleDocument operatorText)) (\<lambda>_. ())
     ?doRename ''file:///example.js'' (1, 4) (str ''b'') = Inl (TypeError ''replace'')"
    by simp
  from rename_declared_off_but_handled [where snippetSupport = False
      and documents = "\<lambda>_. Some (exampleDocument operatorText)" and u = "''file:///example.js''"
      and createSourceFile = "\<lambda>_ _. None" and stylesheets = "\<lambda>_. ()"
      and doRename = ?doRename and position = "(1, 4)" and newName = "str ''b''"
      and d = "exampleDocument operatorText" and sj = sj and e = ParserError] parser
  have f: "onRenameRequest (\<lambda>_ _. None) (\<lambda>_. Some (exampleDocument operatorText)) (\<lambda>_. ())
     ?doRename ''file:///example.js'' (1, 4) (str ''b'') = Inl ParserError"
    by simp
  from a b c d e f sj show ?thesis
    by blast
qed

end
